theory Spec2Isabelle
  imports Complex_Main
begin

section \<open>Conventions\<close>

text \<open>
  The simulators and the aggregator compute with Python floats. They are modelled by the
  real numbers: every arithmetic step is exact. The wall clock (\<^verbatim>\<open>time.time()\<close>) is an
  explicit argument \<open>now\<close> of every operation that reads it, and the random module is an
  explicit stream of draws that is threaded through every operation.
\<close>

section \<open>Telemetry aggregator (simulator/telemetry.py)\<close>

text \<open>
  The three providers return dictionaries; the aggregator reads the keys below and raises
  on a missing key. The records hold exactly the keys read.
\<close>

record battery_state =
  b_level :: real
  b_voltage :: real
  b_current :: real
  b_temperature :: real
  b_charging :: bool

record motor_state =
  m_power :: real
  m_speed :: real
  m_target_speed :: real
  m_temperature :: real
  m_rpm :: real
  m_torque :: real
  m_efficiency :: real

record temp_state =
  t_ambient :: real
  t_controller :: real

text \<open>The fields of \<^verbatim>\<open>TelemetryAggregator\<close> that the code mutates or reads.\<close>

record aggregator =
  start_time :: real
  total_energy :: real
  total_distance :: real
  last_update :: real

text \<open>The dictionary returned by \<^verbatim>\<open>get_aggregated_telemetry\<close>, key by key.\<close>

record telemetry =
  timestamp :: real
  uptime :: real
  battery_level :: real
  battery_voltage :: real
  battery_current :: real
  battery_temperature :: real
  battery_charging :: bool
  speed :: real
  target_speed :: real
  motor_power :: real
  motor_temperature :: real
  motor_rpm :: real
  motor_torque :: real
  motor_efficiency :: real
  ambient_temperature :: real
  controller_temperature :: real
  total_energy_consumed :: real
  tel_total_distance :: real
  energy_efficiency :: real
  estimated_range :: real
  system_health :: real

text \<open>\<^verbatim>\<open>TelemetryAggregator.__init__\<close>: both timestamps are separate clock readings.\<close>

definition aggregator_init :: "real \<Rightarrow> real \<Rightarrow> aggregator" where
  "aggregator_init now1 now2 =
     \<lparr>start_time = now1, total_energy = 0, total_distance = 0, last_update = now2\<rparr>"

text \<open>\<^verbatim>\<open>_calculate_health\<close>: the four penalties are applied one after the other.\<close>

definition calculate_health :: "battery_state \<Rightarrow> motor_state \<Rightarrow> temp_state \<Rightarrow> real" where
  "calculate_health battery_state motor_state temp_state =
     (let health = 100;
          health = (if b_level battery_state < 20
                    then health - (20 - b_level battery_state) else health);
          health = (if b_temperature battery_state > 40
                    then health - (b_temperature battery_state - 40) * 2 else health);
          health = (if m_temperature motor_state > 60
                    then health - (m_temperature motor_state - 60) * 1.5 else health);
          health = (if t_controller temp_state > 70
                    then health - (t_controller temp_state - 70) * 1.5 else health)
      in max 0 (min 100 health))"

text \<open>
  \<^verbatim>\<open>get_aggregated_telemetry\<close>. \<open>capacity\<close> is the attribute
  \<^verbatim>\<open>self.battery_sim.capacity\<close>; the provider states are the results of the three
  \<^verbatim>\<open>get_state()\<close> calls.
\<close>

definition get_aggregated_telemetry ::
  "real \<Rightarrow> battery_state \<Rightarrow> real \<Rightarrow> motor_state \<Rightarrow> temp_state \<Rightarrow> aggregator
     \<Rightarrow> telemetry \<times> aggregator" where
  "get_aggregated_telemetry now battery_state capacity motor_state temp_state self =
     (let elapsed = now - last_update self;
          self = self\<lparr>last_update := now\<rparr>;
          self = (if elapsed > 0 then
                    (let energy_delta = m_power motor_state * (elapsed / 3600);
                         self = self\<lparr>total_energy := total_energy self + energy_delta\<rparr>;
                         distance_delta = m_speed motor_state * (elapsed / 3600)
                     in self\<lparr>total_distance := total_distance self + distance_delta\<rparr>)
                  else self);
          wh_per_km = (if total_distance self > 0
                       then total_energy self / total_distance self else 0);
          range_estimate =
            (if wh_per_km > 0 then
               (let remaining_energy =
                      (b_level battery_state / 100) * b_voltage battery_state * capacity
                in remaining_energy / wh_per_km)
             else 0)
      in (\<lparr>timestamp = now,
           uptime = now - start_time self,
           battery_level = b_level battery_state,
           battery_voltage = b_voltage battery_state,
           battery_current = b_current battery_state,
           battery_temperature = b_temperature battery_state,
           battery_charging = b_charging battery_state,
           speed = m_speed motor_state,
           target_speed = m_target_speed motor_state,
           motor_power = m_power motor_state,
           motor_temperature = m_temperature motor_state,
           motor_rpm = m_rpm motor_state,
           motor_torque = m_torque motor_state,
           motor_efficiency = m_efficiency motor_state,
           ambient_temperature = t_ambient temp_state,
           controller_temperature = t_controller temp_state,
           total_energy_consumed = total_energy self,
           tel_total_distance = total_distance self,
           energy_efficiency = wh_per_km,
           estimated_range = range_estimate,
           system_health = calculate_health battery_state motor_state temp_state\<rparr>,
          self))"

text \<open>One call of the aggregator: the clock reading and what the providers return.\<close>

record agg_call =
  call_now :: real
  call_battery :: battery_state
  call_capacity :: real
  call_motor :: motor_state
  call_temp :: temp_state

definition aggregate :: "agg_call \<Rightarrow> aggregator \<Rightarrow> telemetry \<times> aggregator" where
  "aggregate c self =
     get_aggregated_telemetry (call_now c) (call_battery c) (call_capacity c)
       (call_motor c) (call_temp c) self"

text \<open>Successive calls on one aggregator instance; the snapshots in call order.\<close>

fun run_aggregator :: "agg_call list \<Rightarrow> aggregator \<Rightarrow> telemetry list \<times> aggregator" where
  "run_aggregator [] self = ([], self)"
| "run_aggregator (c # cs) self =
     (let (snap, self) = aggregate c self;
          (snaps, self) = run_aggregator cs self
      in (snap # snaps, self))"

text \<open>
  The health score in the words of the specification (section 4.3, step 5), to be
  compared with \<open>calculate_health\<close>.
\<close>

definition health_spec :: "real \<Rightarrow> real \<Rightarrow> real \<Rightarrow> real \<Rightarrow> real" where
  "health_spec level batteryTemp motorTemp controllerTemp =
     max 0 (min 100
       (100 - (if level < 20 then 20 - level else 0)
            - (if batteryTemp > 40 then 2 * (batteryTemp - 40) else 0)
            - (if motorTemp > 60 then 1.5 * (motorTemp - 60) else 0)
            - (if controllerTemp > 70 then 1.5 * (controllerTemp - 70) else 0)))"

section \<open>Numeric helpers\<close>

text \<open>
  Python's \<^verbatim>\<open>x % y\<close> on floats with a positive divisor: the result lies in \<open>[0, y)\<close>.
\<close>

definition py_mod :: "real \<Rightarrow> real \<Rightarrow> real" where
  "py_mod x y = x - y * of_int \<lfloor>x / y\<rfloor>"

text \<open>
  Python's \<^verbatim>\<open>round(x, ndigits)\<close>: the nearest multiple of \<open>10 ^ -ndigits\<close>, a tie going
  to the even multiple. It is applied here to the exact real value. A float rounds by its
  binary value, so on a decimal tie that no double represents the two can differ by one
  unit in the last digit; the concrete inputs below stay off such ties.
\<close>

definition round_half_even :: "real \<Rightarrow> int" where
  "round_half_even y =
     (let f = \<lfloor>y\<rfloor>; d = y - of_int f
      in if d < 1 / 2 then f
         else if d > 1 / 2 then f + 1
         else if even f then f else f + 1)"

definition py_round :: "real \<Rightarrow> nat \<Rightarrow> real" where
  "py_round x ndigits = of_int (round_half_even (x * 10 ^ ndigits)) / 10 ^ ndigits"

section \<open>Randomness source\<close>

text \<open>
  The module-level generator of \<^verbatim>\<open>random\<close> as an explicit input: an infinite stream of
  draws and the position of the next one. \<^verbatim>\<open>random.random()\<close> returns the next draw,
  \<^verbatim>\<open>random.uniform(a, b)\<close> is \<^verbatim>\<open>a + (b - a) * random()\<close> as in the standard library.
  The library decides \<^verbatim>\<open>random.choice\<close> from random bits of the same generator and not
  from \<^verbatim>\<open>random()\<close>; here one draw of the stream stands for that decision, the first
  element being chosen when the draw is below one half. No statement below depends on
  which element a given draw selects.
\<close>

record rng =
  draws :: "nat \<Rightarrow> real"
  pos :: nat

definition random_random :: "rng \<Rightarrow> real \<times> rng" where
  "random_random g = (draws g (pos g), g\<lparr>pos := Suc (pos g)\<rparr>)"

definition random_uniform :: "real \<Rightarrow> real \<Rightarrow> rng \<Rightarrow> real \<times> rng" where
  "random_uniform a b g = (let (u, g) = random_random g in (a + (b - a) * u, g))"

definition random_choice :: "'a \<Rightarrow> 'a \<Rightarrow> rng \<Rightarrow> 'a \<times> rng" where
  "random_choice x y g = (let (u, g) = random_random g in (if u < 1 / 2 then x else y, g))"

text \<open>
  Two generators make the same draws below position \<open>n\<close> and stand at the same position.
\<close>

definition same_draws :: "nat \<Rightarrow> rng \<Rightarrow> rng \<Rightarrow> bool" where
  "same_draws n g1 g2 = (pos g1 = pos g2 \<and> (\<forall>i<n. draws g1 i = draws g2 i))"

section \<open>Environmental sensor simulator (simulator/bme680\_simulator.py)\<close>

definition ENABLE_GAS_MEAS :: int where "ENABLE_GAS_MEAS = 1"
definition DISABLE_GAS_MEAS :: int where "DISABLE_GAS_MEAS = 0"
definition I2C_ADDR_PRIMARY :: int where "I2C_ADDR_PRIMARY = 118"
definition OS_1X :: int where "OS_1X = 1"
definition FILTER_SIZE_0 :: int where "FILTER_SIZE_0 = 0"

record SensorData =
  temperature :: real
  pressure :: real
  humidity :: real
  gas_resistance :: real
  heat_stable :: bool

definition SensorData_init :: SensorData where
  "SensorData_init =
     \<lparr>temperature = 25, pressure = 1013.25, humidity = 50, gas_resistance = 50000,
      heat_stable = False\<rparr>"

record BME680Simulator =
  i2c_addr :: int
  data :: SensorData
  humidity_oversample :: int
  pressure_oversample :: int
  temperature_oversample :: int
  filter_size :: int
  gas_status :: int
  gas_heater_temp :: int
  gas_heater_duration :: int
  gas_heater_profile :: int
  bme_last_update :: real
  temp_trend :: real
  pressure_trend :: real
  humidity_trend :: real
  time_of_day_hours :: real

text \<open>\<^verbatim>\<open>BME680Simulator.__init__\<close>; the constructor reads the clock twice.\<close>

definition BME680Simulator_init :: "int \<Rightarrow> real \<Rightarrow> real \<Rightarrow> BME680Simulator" where
  "BME680Simulator_init addr now1 now2 =
     \<lparr>i2c_addr = addr, data = SensorData_init,
      humidity_oversample = OS_1X, pressure_oversample = OS_1X,
      temperature_oversample = OS_1X, filter_size = FILTER_SIZE_0,
      gas_status = DISABLE_GAS_MEAS, gas_heater_temp = 0, gas_heater_duration = 0,
      gas_heater_profile = 0,
      bme_last_update = now1, temp_trend = 0, pressure_trend = 0, humidity_trend = 0,
      time_of_day_hours = py_mod now2 86400 / 3600\<rparr>"

definition set_gas_status :: "int \<Rightarrow> BME680Simulator \<Rightarrow> BME680Simulator" where
  "set_gas_status v self = self\<lparr>gas_status := v\<rparr>"

definition set_gas_heater_temperature :: "int \<Rightarrow> BME680Simulator \<Rightarrow> BME680Simulator" where
  "set_gas_heater_temperature v self = self\<lparr>gas_heater_temp := v\<rparr>"

definition set_gas_heater_duration :: "int \<Rightarrow> BME680Simulator \<Rightarrow> BME680Simulator" where
  "set_gas_heater_duration v self = self\<lparr>gas_heater_duration := v\<rparr>"

text \<open>
  \<^verbatim>\<open>get_sensor_data\<close>, statement by statement. The draws are taken in the order of the
  source: temperature trend, temperature noise, pressure trend, pressure noise, humidity
  trend, humidity noise and, with gas measurement enabled, resistance noise.
\<close>

definition get_sensor_data ::
  "real \<Rightarrow> rng \<Rightarrow> BME680Simulator \<Rightarrow> bool \<times> BME680Simulator \<times> rng" where
  "get_sensor_data now g self =
     (let elapsed = now - bme_last_update self;
          self = self\<lparr>bme_last_update := now\<rparr>;
          self = self\<lparr>time_of_day_hours :=
                   py_mod (time_of_day_hours self + elapsed / 3600) 24\<rparr>;
          daily_temp_cycle = 5 * sin (((time_of_day_hours self - 8) / 24) * 2 * pi);
          (u, g) = random_random g;
          self = self\<lparr>temp_trend :=
                   max (- 2) (min 2 (temp_trend self + (u - 0.5) * 0.1 * elapsed))\<rparr>;
          base_temp = 25 + temp_trend self + daily_temp_cycle;
          (u, g) = random_random g;
          noise = (u - 0.5) * 0.3;
          self = self\<lparr>data := (data self)\<lparr>temperature := py_round (base_temp + noise) 2\<rparr>\<rparr>;
          (u, g) = random_random g;
          self = self\<lparr>pressure_trend :=
                   max (- 10) (min 10 (pressure_trend self - (temp_trend self * 0.5)
                                         + (u - 0.5) * 0.5 * elapsed))\<rparr>;
          base_pressure = 1013.25 + pressure_trend self;
          (u, g) = random_random g;
          pressure_noise = (u - 0.5) * 0.5;
          self = self\<lparr>data :=
                   (data self)\<lparr>pressure := py_round (base_pressure + pressure_noise) 2\<rparr>\<rparr>;
          humidity_cycle = - 10 * sin (((time_of_day_hours self - 8) / 24) * 2 * pi);
          (u, g) = random_random g;
          self = self\<lparr>humidity_trend :=
                   max (- 20) (min 20 (humidity_trend self + (u - 0.5) * 0.5 * elapsed))\<rparr>;
          base_humidity = 50 + humidity_trend self + humidity_cycle;
          (u, g) = random_random g;
          humidity_noise = (u - 0.5) * 2;
          self = self\<lparr>data := (data self)\<lparr>humidity :=
                   py_round (max 0 (min 100 (base_humidity + humidity_noise))) 2\<rparr>\<rparr>
      in if gas_status self = ENABLE_GAS_MEAS then
           (let humidity_factor = 1 - humidity (data self) / 150;
                rush_hour_factor = 1;
                morning_rush = (\<bar>time_of_day_hours self - 8\<bar> < 2);
                evening_rush = (\<bar>time_of_day_hours self - 18\<bar> < 2);
                rush_hour_factor =
                  (if morning_rush \<or> evening_rush then 0.7 else rush_hour_factor);
                base_resistance = 50000 * humidity_factor * rush_hour_factor;
                (u, g) = random_random g;
                resistance_noise = (u - 0.3) * 10000;
                self = self\<lparr>data := (data self)\<lparr>gas_resistance :=
                         max 5000 (base_resistance + resistance_noise)\<rparr>\<rparr>;
                self = (if gas_heater_temp self > 200 \<and> gas_heater_duration self > 100
                        then self\<lparr>data := (data self)\<lparr>heat_stable := True\<rparr>\<rparr>
                        else self\<lparr>data := (data self)\<lparr>heat_stable := False\<rparr>\<rparr>)
            in (True, self, g))
         else (True, self\<lparr>data := (data self)\<lparr>heat_stable := False\<rparr>\<rparr>, g))"

text \<open>
  Successive samples of one simulator instance: the clock readings of the calls, and the
  content of \<^verbatim>\<open>self.data\<close> after each call.
\<close>

fun run_bme ::
  "real list \<Rightarrow> rng \<Rightarrow> BME680Simulator \<Rightarrow> SensorData list \<times> BME680Simulator \<times> rng" where
  "run_bme [] g self = ([], self, g)"
| "run_bme (now # nows) g self =
     (let (ok, self, g) = get_sensor_data now g self;
          (samples, self', g') = run_bme nows g self
      in (data self # samples, self', g'))"

subsection \<open>Values named in the proofs, and the specification's pressure step\<close>

text \<open>
  The resistance assigned with gas measurement enabled (lines 148 to 159 of the source),
  as a function of the humidity just stored, the time of day and the draw.
\<close>

definition gas_resistance_value :: "real \<Rightarrow> real \<Rightarrow> real \<Rightarrow> real" where
  "gas_resistance_value hum tod u =
     max 5000 (50000 * (1 - hum / 150)
                 * (if \<bar>tod - 8\<bar> < 2 \<or> \<bar>tod - 18\<bar> < 2 then 0.7 else 1)
               + (u - 0.3) * 10000)"

text \<open>
  The pressure step in the words of the specification (section 4.1, step 3), to be
  compared with \<open>get_sensor_data\<close>: the trend loses half of the change of the
  temperature trend in the same step, and the pressure is the sum of base, trend and noise.
\<close>

definition pressure_trend_spec :: "real \<Rightarrow> real \<Rightarrow> real \<Rightarrow> real \<Rightarrow> real \<Rightarrow> real" where
  "pressure_trend_spec pressureTrend tempTrendBefore tempTrendAfter u e =
     max (- 10) (min 10 (pressureTrend - (tempTrendAfter - tempTrendBefore) / 2
                           + (u - 0.5) * 0.5 * e))"

definition pressure_spec :: "real \<Rightarrow> real \<Rightarrow> real" where
  "pressure_spec pressureTrend u = 1013.25 + pressureTrend + (u - 0.5) * 0.5"

subsection \<open>The collector's reading (sensor\_collector.py)\<close>

text \<open>
  \<^verbatim>\<open>SensorCollector.read_sensor\<close> with the simulator as its sensor. The dictionary it
  returns maps keys to floats or, for the timestamp, a string; \<open>iso_now\<close> is the result of
  \<^verbatim>\<open>datetime.datetime.now().isoformat()\<close>. No statement of the \<^verbatim>\<open>try\<close> block raises on
  a simulator instance.
\<close>

datatype pyval = PyFloat real | PyStr string

definition read_sensor ::
  "string \<Rightarrow> real \<Rightarrow> rng \<Rightarrow> BME680Simulator
     \<Rightarrow> (string \<rightharpoonup> pyval) \<times> BME680Simulator \<times> rng" where
  "read_sensor iso_now now g sensor =
     (let (ok, sensor, g) = get_sensor_data now g sensor
      in if ok then
           (let reading = [''temperature'' \<mapsto> PyFloat (py_round (temperature (data sensor)) 2),
                           ''pressure'' \<mapsto> PyFloat (py_round (pressure (data sensor)) 2),
                           ''humidity'' \<mapsto> PyFloat (py_round (humidity (data sensor)) 2),
                           ''timestamp'' \<mapsto> PyStr iso_now];
                reading = (if heat_stable (data sensor)
                           then reading(''gas_resistance'' \<mapsto>
                                  PyFloat (gas_resistance (data sensor)))
                           else reading)
            in (reading, sensor, g))
         else (Map.empty, sensor, g))"

section \<open>Inertial sensor simulator (simulator/mpu6050\_simulator.py)\<close>

text \<open>
  The scenario label is one of the strings \<^verbatim>\<open>"normal"\<close>, \<^verbatim>\<open>"fall"\<close> and \<^verbatim>\<open>"pothole"\<close>;
  no other value is ever assigned.
\<close>

datatype scenario_kind = Normal | Fall | Pothole

record MPU6050Simulator =
  accel_x :: real
  accel_y :: real
  accel_z :: real
  gyro_x :: real
  gyro_y :: real
  gyro_z :: real
  mpu_temperature :: real
  init_time :: real
  mpu_last_update :: real
  scenario :: scenario_kind
  scenario_start :: real
  scenario_duration :: real
  scenario_progress :: real

text \<open>\<^verbatim>\<open>_schedule_next_event\<close>; \<open>now\<close> is its own reading of the clock.\<close>

definition schedule_next_event ::
  "real \<Rightarrow> rng \<Rightarrow> MPU6050Simulator \<Rightarrow> MPU6050Simulator \<times> rng" where
  "schedule_next_event now g self =
     (let (next_event_time, g) = random_uniform 20 60 g;
          self = self\<lparr>scenario_start := now + next_event_time\<rparr>;
          (event_type, g) = random_random g
      in if event_type < 0.3
         then (self\<lparr>scenario := Fall, scenario_duration := 2\<rparr>, g)
         else (self\<lparr>scenario := Pothole, scenario_duration := 0.5\<rparr>, g))"

text \<open>\<^verbatim>\<open>MPU6050Simulator.__init__\<close>.\<close>

definition MPU6050Simulator_init :: "real \<Rightarrow> real \<Rightarrow> rng \<Rightarrow> MPU6050Simulator \<times> rng" where
  "MPU6050Simulator_init now now_sched g =
     schedule_next_event now_sched g
       \<lparr>accel_x = 0, accel_y = 0, accel_z = 9.8,
        gyro_x = 0, gyro_y = 0, gyro_z = 0,
        mpu_temperature = 25,
        init_time = now, mpu_last_update = now,
        scenario = Normal, scenario_start = 0, scenario_duration = 0,
        scenario_progress = 0\<rparr>"

text \<open>\<^verbatim>\<open>_update_normal_riding\<close>.\<close>

definition update_normal_riding :: "rng \<Rightarrow> MPU6050Simulator \<Rightarrow> MPU6050Simulator \<times> rng" where
  "update_normal_riding g self =
     (let (v, g) = random_uniform (- 0.5) 0.5 g; self = self\<lparr>accel_x := v\<rparr>;
          (v, g) = random_uniform (- 0.5) 0.5 g; self = self\<lparr>accel_y := v\<rparr>;
          (v, g) = random_uniform (- 0.3) 0.3 g; self = self\<lparr>accel_z := 9.8 + v\<rparr>;
          (v, g) = random_uniform (- 0.2) 0.2 g; self = self\<lparr>gyro_x := v\<rparr>;
          (v, g) = random_uniform (- 0.2) 0.2 g; self = self\<lparr>gyro_y := v\<rparr>;
          (v, g) = random_uniform (- 0.1) 0.1 g; self = self\<lparr>gyro_z := v\<rparr>;
          (t, g) = random_random g
      in if t < 0.05 then
           (let (d, g) = random_random g;
                turn_direction = (if d < 0.5 then 1 else - 1);
                (v, g) = random_uniform 0.5 1.5 g
            in (self\<lparr>gyro_z := turn_direction * v\<rparr>, g))
         else (self, g))"

text \<open>\<^verbatim>\<open>_update_fall\<close>: the four phases in the order of the \<^verbatim>\<open>if\<close>/\<^verbatim>\<open>elif\<close> chain.\<close>

definition update_fall :: "real \<Rightarrow> rng \<Rightarrow> MPU6050Simulator \<Rightarrow> MPU6050Simulator \<times> rng" where
  "update_fall progress g self =
     (if progress < 0.1 then
        (let lean_angle = progress * 10 * pi / 180;
             self = self\<lparr>accel_x := 9.8 * sin lean_angle\<rparr>;
             self = self\<lparr>accel_z := 9.8 * cos lean_angle\<rparr>;
             (v, g) = random_uniform 0.5 1 g
         in (self\<lparr>gyro_x := v\<rparr>, g))
      else if progress < 0.3 then
        (let (v, g) = random_uniform (- 1) 1 g; self = self\<lparr>accel_x := v\<rparr>;
             (v, g) = random_uniform (- 1) 1 g; self = self\<lparr>accel_y := v\<rparr>;
             (v, g) = random_uniform (- 1) 1 g; self = self\<lparr>accel_z := v\<rparr>;
             (v, g) = random_uniform 2 5 g; self = self\<lparr>gyro_x := v\<rparr>;
             (v, g) = random_uniform (- 2) 2 g
         in (self\<lparr>gyro_y := v\<rparr>, g))
      else if progress < 0.4 then
        (let (impact_direction, g) = random_choice ''side'' ''front'' g;
             (self, g) =
               (if impact_direction = ''side'' then
                  (let (v, g) = random_uniform 25 35 g; self = self\<lparr>accel_x := v\<rparr>;
                       (v, g) = random_uniform (- 5) 5 g; self = self\<lparr>accel_y := v\<rparr>;
                       (v, g) = random_uniform 5 10 g
                   in (self\<lparr>accel_z := v\<rparr>, g))
                else
                  (let (v, g) = random_uniform (- 5) 5 g; self = self\<lparr>accel_x := v\<rparr>;
                       (v, g) = random_uniform 25 35 g; self = self\<lparr>accel_y := v\<rparr>;
                       (v, g) = random_uniform 5 10 g
                   in (self\<lparr>accel_z := v\<rparr>, g)));
             (v, g) = random_uniform (- 10) 10 g; self = self\<lparr>gyro_x := v\<rparr>;
             (v, g) = random_uniform (- 10) 10 g; self = self\<lparr>gyro_y := v\<rparr>;
             (v, g) = random_uniform (- 10) 10 g
         in (self\<lparr>gyro_z := v\<rparr>, g))
      else
        (let (a, g) = random_uniform 60 90 g;
             fall_angle = a * pi / 180;
             self = self\<lparr>accel_x := 9.8 * sin fall_angle\<rparr>;
             (v, g) = random_uniform (- 1) 1 g; self = self\<lparr>accel_y := v\<rparr>;
             self = self\<lparr>accel_z := 9.8 * cos fall_angle\<rparr>;
             (v, g) = random_uniform (- 0.1) 0.1 g; self = self\<lparr>gyro_x := v\<rparr>;
             (v, g) = random_uniform (- 0.1) 0.1 g; self = self\<lparr>gyro_y := v\<rparr>;
             (v, g) = random_uniform (- 0.1) 0.1 g
         in (self\<lparr>gyro_z := v\<rparr>, g)))"

text \<open>\<^verbatim>\<open>_update_pothole\<close>.\<close>

definition update_pothole :: "real \<Rightarrow> rng \<Rightarrow> MPU6050Simulator \<Rightarrow> MPU6050Simulator \<times> rng" where
  "update_pothole progress g self =
     (if progress < 0.3 then
        (let (v, g) = random_uniform 5 15 g; self = self\<lparr>accel_z := - 9.8 - v\<rparr>;
             (v, g) = random_uniform (- 2) 2 g; self = self\<lparr>accel_x := v\<rparr>;
             (v, g) = random_uniform (- 2) 2 g; self = self\<lparr>accel_y := v\<rparr>;
             (v, g) = random_uniform 2 4 g; self = self\<lparr>gyro_x := v\<rparr>;
             (v, g) = random_uniform (- 0.5) 0.5 g; self = self\<lparr>gyro_y := v\<rparr>;
             (v, g) = random_uniform (- 0.5) 0.5 g
         in (self\<lparr>gyro_z := v\<rparr>, g))
      else if progress < 0.7 then
        (let (v, g) = random_uniform 5 15 g; self = self\<lparr>accel_z := 9.8 + v\<rparr>;
             (v, g) = random_uniform (- 3) 3 g; self = self\<lparr>accel_x := v\<rparr>;
             (v, g) = random_uniform (- 3) 3 g; self = self\<lparr>accel_y := v\<rparr>;
             (v, g) = random_uniform (- 3) (- 1) g; self = self\<lparr>gyro_x := v\<rparr>;
             (v, g) = random_uniform (- 0.5) 0.5 g; self = self\<lparr>gyro_y := v\<rparr>;
             (v, g) = random_uniform (- 0.5) 0.5 g
         in (self\<lparr>gyro_z := v\<rparr>, g))
      else
        (let (v, g) = random_uniform (- 2) 2 g;
             self = self\<lparr>accel_z := 9.8 + v * (1 - progress) * 2\<rparr>;
             (v, g) = random_uniform (- 1) 1 g;
             self = self\<lparr>accel_x := v * (1 - progress) * 2\<rparr>;
             (v, g) = random_uniform (- 1) 1 g;
             self = self\<lparr>accel_y := v * (1 - progress) * 2\<rparr>;
             (v, g) = random_uniform (- 1) 1 g;
             self = self\<lparr>gyro_x := v * (1 - progress) * 2\<rparr>;
             (v, g) = random_uniform (- 0.5) 0.5 g;
             self = self\<lparr>gyro_y := v * (1 - progress) * 2\<rparr>;
             (v, g) = random_uniform (- 0.5) 0.5 g
         in (self\<lparr>gyro_z := v * (1 - progress) * 2\<rparr>, g)))"

text \<open>
  \<^verbatim>\<open>_update_simulation\<close>. \<open>now\<close> is the clock reading at its first line; \<open>now_sched\<close> is
  the later reading made inside \<^verbatim>\<open>_schedule_next_event\<close> when the event completes.
  The division by the event's duration raises when the duration is zero.
\<close>

datatype py_error = ZeroDivisionError

definition update_simulation ::
  "real \<Rightarrow> real \<Rightarrow> rng \<Rightarrow> MPU6050Simulator \<Rightarrow> py_error + (MPU6050Simulator \<times> rng)" where
  "update_simulation now now_sched g self =
     (let elapsed = now - mpu_last_update self;
          self = self\<lparr>mpu_last_update := now\<rparr>;
          (v, g) = random_uniform (- 0.05) 0.05 g;
          self = self\<lparr>mpu_temperature := mpu_temperature self + v * elapsed\<rparr>;
          self = self\<lparr>mpu_temperature := min 45 (max 15 (mpu_temperature self))\<rparr>
      in if scenario self \<noteq> Normal \<and> now \<ge> scenario_start self then
           (let event_elapsed = now - scenario_start self
            in if scenario_duration self = 0 then Inl ZeroDivisionError
               else
                 (let progress = min 1 (event_elapsed / scenario_duration self);
                      self = self\<lparr>scenario_progress := progress\<rparr>;
                      (self, g) =
                        (if scenario self = Fall then update_fall progress g self
                         else if scenario self = Pothole then update_pothole progress g self
                         else (self, g))
                  in if progress \<ge> 1
                     then Inr (schedule_next_event now_sched g (self\<lparr>scenario := Normal\<rparr>))
                     else Inr (self, g)))
         else Inr (update_normal_riding g self))"

text \<open>
  The three properties. Each returns its value and the simulator after the read.
\<close>

definition acceleration ::
  "real \<Rightarrow> real \<Rightarrow> rng \<Rightarrow> MPU6050Simulator
     \<Rightarrow> py_error + ((real \<times> real \<times> real) \<times> MPU6050Simulator \<times> rng)" where
  "acceleration now now_sched g self =
     (case update_simulation now now_sched g self of
        Inl e \<Rightarrow> Inl e
      | Inr (self, g) \<Rightarrow> Inr ((accel_x self, accel_y self, accel_z self), self, g))"

definition gyro :: "MPU6050Simulator \<Rightarrow> (real \<times> real \<times> real) \<times> MPU6050Simulator" where
  "gyro self = ((gyro_x self, gyro_y self, gyro_z self), self)"

definition temperature_property :: "MPU6050Simulator \<Rightarrow> real \<times> MPU6050Simulator" where
  "temperature_property self = (mpu_temperature self, self)"

text \<open>
  A read of one of the three properties, and a sequence of reads of one instance, which
  stops at the first read that raises.
\<close>

datatype access = Acceleration real real | Gyro | Temperature

datatype motion_value = Vec real real real | Scalar real

fun read_property ::
  "access \<Rightarrow> rng \<Rightarrow> MPU6050Simulator
     \<Rightarrow> py_error + (motion_value \<times> MPU6050Simulator \<times> rng)" where
  "read_property (Acceleration now now_sched) g self =
     (case acceleration now now_sched g self of
        Inl e \<Rightarrow> Inl e
      | Inr ((x, y, z), self, g) \<Rightarrow> Inr (Vec x y z, self, g))"
| "read_property Gyro g self =
     (let ((x, y, z), self) = gyro self in Inr (Vec x y z, self, g))"
| "read_property Temperature g self =
     (let (t, self) = temperature_property self in Inr (Scalar t, self, g))"

fun run_reads ::
  "access list \<Rightarrow> rng \<Rightarrow> MPU6050Simulator
     \<Rightarrow> py_error + (motion_value list \<times> MPU6050Simulator \<times> rng)" where
  "run_reads [] g self = Inr ([], self, g)"
| "run_reads (a # as) g self =
     (case read_property a g self of
        Inl e \<Rightarrow> Inl e
      | Inr (v, self, g) \<Rightarrow>
          (case run_reads as g self of
             Inl e \<Rightarrow> Inl e
           | Inr (vs, self, g) \<Rightarrow> Inr (v # vs, self, g)))"

text \<open>
  An event is scheduled: the label and the duration are those that one branch of
  \<^verbatim>\<open>_schedule_next_event\<close> assigns together.
\<close>

definition event_scheduled :: "MPU6050Simulator \<Rightarrow> bool" where
  "event_scheduled self =
     (scenario self = Fall \<and> scenario_duration self = 2
      \<or> scenario self = Pothole \<and> scenario_duration self = 0.5)"

text \<open>
  A read falls inside an event when the guard of \<^verbatim>\<open>_update_simulation\<close> holds.
\<close>

definition in_event :: "real \<Rightarrow> MPU6050Simulator \<Rightarrow> bool" where
  "in_event now self = (scenario self \<noteq> Normal \<and> now \<ge> scenario_start self)"

text \<open>
  Names for two intermediate values of \<^verbatim>\<open>_update_simulation\<close>: the simulator after the
  clock and temperature statements (lines 182 to 188), and the progress of the event
  (lines 193 and 194).
\<close>

definition tick :: "real \<Rightarrow> rng \<Rightarrow> MPU6050Simulator \<Rightarrow> MPU6050Simulator" where
  "tick now g self =
     self\<lparr>mpu_last_update := now,
          mpu_temperature := min 45 (max 15 (mpu_temperature self
            + (- 0.05 + (0.05 - - 0.05) * draws g (pos g)) * (now - mpu_last_update self)))\<rparr>"

definition event_progress :: "real \<Rightarrow> MPU6050Simulator \<Rightarrow> real" where
  "event_progress now self = min 1 ((now - scenario_start self) / scenario_duration self)"

section \<open>Concrete inputs\<close>

text \<open>Provider states and calls on which the theorems below are instantiated.\<close>

definition battery_ex :: battery_state where
  "battery_ex =
     \<lparr>b_level = 25, b_voltage = 36, b_current = 2, b_temperature = 45, b_charging = False\<rparr>"

definition motor_ex :: motor_state where
  "motor_ex =
     \<lparr>m_power = 100, m_speed = 0, m_target_speed = 0, m_temperature = 65, m_rpm = 0,
      m_torque = 0, m_efficiency = 1\<rparr>"

definition motor_moving :: motor_state where
  "motor_moving =
     \<lparr>m_power = 200, m_speed = 20, m_target_speed = 20, m_temperature = 50, m_rpm = 300,
      m_torque = 5, m_efficiency = 1\<rparr>"

definition temp_ex :: temp_state where
  "temp_ex = \<lparr>t_ambient = 20, t_controller = 75\<rparr>"

definition calls_ex :: "agg_call list" where
  "calls_ex =
     [\<lparr>call_now = 3600, call_battery = battery_ex, call_capacity = 10,
       call_motor = motor_ex, call_temp = temp_ex\<rparr>,
      \<lparr>call_now = 7200, call_battery = battery_ex, call_capacity = 10,
       call_motor = motor_moving, call_temp = temp_ex\<rparr>]"

text \<open>Concrete generators and simulators on which the theorems are instantiated.\<close>

definition rng_half :: rng where
  "rng_half = \<lparr>draws = (\<lambda>i. 1 / 2), pos = 0\<rparr>"

definition rng_bme :: rng where
  "rng_bme = \<lparr>draws = (\<lambda>i. if i = 0 then 3 / 4 else if i = 9 then 253 / 500 else 1 / 2),
              pos = 0\<rparr>"

definition bme0 :: BME680Simulator where
  "bme0 = BME680Simulator_init I2C_ADDR_PRIMARY 0 0"

definition bme1 :: BME680Simulator where
  "bme1 = fst (snd (get_sensor_data 40 rng_bme bme0))"

definition rng_bme1 :: rng where
  "rng_bme1 = snd (snd (get_sensor_data 40 rng_bme bme0))"

definition bme2 :: BME680Simulator where
  "bme2 = fst (snd (get_sensor_data 41 rng_bme1 bme1))"

definition bme_gas :: BME680Simulator where
  "bme_gas = set_gas_heater_duration 150 (set_gas_heater_temperature 320
               (set_gas_status ENABLE_GAS_MEAS bme0))"

text \<open>
  A concrete run of the inertial simulator: construction at time 0 schedules a fall at
  50 s; reads follow at 49 s (normal riding), 50.1 s (initial lean) or 50.5 s (free
  fall), 52 s (the fall completes and the next event is scheduled) and 60 s.
\<close>

definition rng_mpu :: rng where
  "rng_mpu = \<lparr>draws = (\<lambda>i. if i = 1 then 0 else 3 / 4), pos = 0\<rparr>"

definition mpu_a0 :: MPU6050Simulator where
  "mpu_a0 = fst (MPU6050Simulator_init 0 0 rng_mpu)"

definition rng_a0 :: rng where
  "rng_a0 = snd (MPU6050Simulator_init 0 0 rng_mpu)"

definition mpu_a1 :: MPU6050Simulator where
  "mpu_a1 = fst (projr (update_simulation 49 49 rng_a0 mpu_a0))"

definition rng_a1 :: rng where
  "rng_a1 = snd (projr (update_simulation 49 49 rng_a0 mpu_a0))"

definition mpu_a2 :: MPU6050Simulator where
  "mpu_a2 = fst (projr (update_simulation 50.5 50.5 rng_a1 mpu_a1))"

definition rng_a2 :: rng where
  "rng_a2 = snd (projr (update_simulation 50.5 50.5 rng_a1 mpu_a1))"

definition mpu_a3 :: MPU6050Simulator where
  "mpu_a3 = fst (projr (update_simulation 52 52 rng_a2 mpu_a2))"

definition rng_a3 :: rng where
  "rng_a3 = snd (projr (update_simulation 52 52 rng_a2 mpu_a2))"

definition mpu_a4 :: MPU6050Simulator where
  "mpu_a4 = fst (projr (update_simulation 60 60 rng_a3 mpu_a3))"

text \<open>
  Generators that agree with \<open>rng_bme\<close> and \<open>rng_a0\<close> on the draws that the concrete
  runs make and differ from them afterwards.
\<close>

definition rng_bme_alt :: rng where
  "rng_bme_alt = \<lparr>draws = (\<lambda>i. if i < 12 then draws rng_bme i else 0), pos = 0\<rparr>"

definition rng_a0_alt :: rng where
  "rng_a0_alt = \<lparr>draws = (\<lambda>i. if i < 10 then draws rng_mpu i else 0), pos = 2\<rparr>"

section \<open>Telemetry aggregator: properties\<close>

lemma calculate_health_spec:
  "calculate_health b m t =
     health_spec (b_level b) (b_temperature b) (m_temperature m) (t_controller t)"
  unfolding calculate_health_def health_spec_def Let_def
  by (auto simp: algebra_simps min_def max_def)

lemma system_health_aggregate:
  "system_health (fst (get_aggregated_telemetry now b cap m t self)) = calculate_health b m t"
  by (simp add: get_aggregated_telemetry_def Let_def)

lemma health_example:
  "health_spec 25 45 65 75 = 75"
  by (simp add: health_spec_def)

lemma health_bounds: "0 \<le> calculate_health b m t \<and> calculate_health b m t \<le> 100"
  by (simp add: calculate_health_def Let_def)

lemma aggregate_totals:
  "total_energy_consumed (fst (aggregate c self)) = total_energy (snd (aggregate c self))"
  "tel_total_distance (fst (aggregate c self)) = total_distance (snd (aggregate c self))"
  by (simp_all add: aggregate_def get_aggregated_telemetry_def Let_def)

lemma aggregate_energy_step:
  "total_energy (snd (aggregate c self)) =
     (if call_now c - last_update self > 0
      then total_energy self + m_power (call_motor c) * ((call_now c - last_update self) / 3600)
      else total_energy self)"
  by (simp add: aggregate_def get_aggregated_telemetry_def Let_def)

lemma aggregate_distance_step:
  "total_distance (snd (aggregate c self)) =
     (if call_now c - last_update self > 0
      then total_distance self + m_speed (call_motor c) * ((call_now c - last_update self) / 3600)
      else total_distance self)"
  by (simp add: aggregate_def get_aggregated_telemetry_def Let_def)

lemma aggregate_energy_mono:
  assumes "0 \<le> m_power (call_motor c)"
  shows "total_energy self \<le> total_energy (snd (aggregate c self))"
proof (cases "call_now c - last_update self > 0")
  case True
  then have "0 \<le> m_power (call_motor c) * ((call_now c - last_update self) / 3600)"
    using assms by simp
  then show ?thesis using True by (simp add: aggregate_energy_step)
next
  case False
  then show ?thesis by (simp add: aggregate_energy_step)
qed

lemma aggregate_distance_mono:
  assumes "0 \<le> m_speed (call_motor c)"
  shows "total_distance self \<le> total_distance (snd (aggregate c self))"
proof (cases "call_now c - last_update self > 0")
  case True
  then have "0 \<le> m_speed (call_motor c) * ((call_now c - last_update self) / 3600)"
    using assms by simp
  then show ?thesis using True by (simp add: aggregate_distance_step)
next
  case False
  then show ?thesis by (simp add: aggregate_distance_step)
qed

lemma run_aggregator_Cons:
  "fst (run_aggregator (c # cs) self) =
     fst (aggregate c self) # fst (run_aggregator cs (snd (aggregate c self)))"
  by (simp add: split_def Let_def)

lemma sorted_push:
  fixes a :: real
  shows "a \<le> b \<Longrightarrow> sorted (b # xs) \<Longrightarrow> sorted (a # b # xs)"
  by auto

lemma run_aggregator_energy_sorted:
  "\<forall>c\<in>set cs. 0 \<le> m_power (call_motor c) \<Longrightarrow>
   sorted (total_energy self # map total_energy_consumed (fst (run_aggregator cs self)))"
proof (induction cs arbitrary: self)
  case Nil
  then show ?case by simp
next
  case (Cons c cs)
  have step: "total_energy self \<le> total_energy (snd (aggregate c self))"
    using Cons.prems by (simp add: aggregate_energy_mono)
  have rest: "sorted (total_energy (snd (aggregate c self)) #
      map total_energy_consumed (fst (run_aggregator cs (snd (aggregate c self)))))"
    using Cons.IH Cons.prems by simp
  show ?case
    unfolding run_aggregator_Cons list.map aggregate_totals
    by (rule sorted_push [OF step rest])
qed

lemma run_aggregator_distance_sorted:
  "\<forall>c\<in>set cs. 0 \<le> m_speed (call_motor c) \<Longrightarrow>
   sorted (total_distance self # map tel_total_distance (fst (run_aggregator cs self)))"
proof (induction cs arbitrary: self)
  case Nil
  then show ?case by simp
next
  case (Cons c cs)
  have step: "total_distance self \<le> total_distance (snd (aggregate c self))"
    using Cons.prems by (simp add: aggregate_distance_mono)
  have rest: "sorted (total_distance (snd (aggregate c self)) #
      map tel_total_distance (fst (run_aggregator cs (snd (aggregate c self)))))"
    using Cons.IH Cons.prems by simp
  show ?case
    unfolding run_aggregator_Cons list.map aggregate_totals
    by (rule sorted_push [OF step rest])
qed

lemma run_aggregator_health:
  "\<forall>snap\<in>set (fst (run_aggregator cs self)).
     0 \<le> system_health snap \<and> system_health snap \<le> 100"
proof (induction cs arbitrary: self)
  case Nil
  then show ?case by simp
next
  case (Cons c cs)
  have "system_health (fst (aggregate c self)) =
      calculate_health (call_battery c) (call_motor c) (call_temp c)"
    by (simp add: aggregate_def system_health_aggregate)
  then show ?case
    unfolding run_aggregator_Cons using Cons.IH health_bounds by simp
qed

text \<open>
  C1. The health score of every snapshot is the score of the specification: start at 100,
  subtract \<open>20 - level\<close> below level 20, twice the battery temperature's excess over
  40, one and a half times the motor temperature's excess over 60 and the controller
  temperature's excess over 70, and clamp to \<open>[0, 100]\<close>. At level 25 and temperatures
  45, 65 and 75 the score is 75.
\<close>

theorem system_health_formula:
  "system_health (fst (get_aggregated_telemetry now b cap m t self)) =
     health_spec (b_level b) (b_temperature b) (m_temperature m) (t_controller t)
   \<and> (b_level b = 25 \<and> b_temperature b = 45 \<and> m_temperature m = 65 \<and> t_controller t = 75
        \<longrightarrow> system_health (fst (get_aggregated_telemetry now b cap m t self)) = 75)"
  by (simp add: system_health_aggregate calculate_health_spec health_example)

theorem system_health_formula_witness:
  "b_level battery_ex = 25 \<and> b_temperature battery_ex = 45
   \<and> m_temperature motor_ex = 65 \<and> t_controller temp_ex = 75
   \<and> system_health
        (fst (get_aggregated_telemetry 3600 battery_ex 10 motor_ex temp_ex
               (aggregator_init 0 0))) = 75"
  using system_health_formula [where now = 3600 and b = battery_ex and cap = 10
      and m = motor_ex and t = temp_ex and self = "aggregator_init 0 0"]
  by (simp add: battery_ex_def motor_ex_def temp_ex_def)

text \<open>
  C2. A call with positive elapsed time adds \<open>power * (elapsed / 3600)\<close> to the energy
  total and \<open>speed * (elapsed / 3600)\<close> to the distance total. Over any sequence of calls
  with non-negative power and speed, the totals reported by successive snapshots never
  decrease, starting from the totals before the first call. With 3600 seconds elapsed,
  100 W and speed 0, the energy total grows by 100 and the distance total is unchanged.
\<close>

theorem energy_distance_accumulate:
  "(now - last_update self > 0 \<longrightarrow>
      total_energy (snd (get_aggregated_telemetry now b cap m t self)) =
        total_energy self + m_power m * ((now - last_update self) / 3600)
    \<and> total_distance (snd (get_aggregated_telemetry now b cap m t self)) =
        total_distance self + m_speed m * ((now - last_update self) / 3600))
   \<and> ((\<forall>c\<in>set cs. 0 \<le> m_power (call_motor c) \<and> 0 \<le> m_speed (call_motor c)) \<longrightarrow>
      sorted (total_energy self # map total_energy_consumed (fst (run_aggregator cs self)))
    \<and> sorted (total_distance self # map tel_total_distance (fst (run_aggregator cs self))))
   \<and> (now - last_update self = 3600 \<and> m_power m = 100 \<and> m_speed m = 0 \<longrightarrow>
      total_energy (snd (get_aggregated_telemetry now b cap m t self)) = total_energy self + 100
    \<and> total_distance (snd (get_aggregated_telemetry now b cap m t self)) = total_distance self)"
proof (intro conjI impI)
  assume "\<forall>c\<in>set cs. 0 \<le> m_power (call_motor c) \<and> 0 \<le> m_speed (call_motor c)"
  then show "sorted (total_energy self # map total_energy_consumed (fst (run_aggregator cs self)))"
    and "sorted (total_distance self # map tel_total_distance (fst (run_aggregator cs self)))"
    by (blast intro: run_aggregator_energy_sorted run_aggregator_distance_sorted)+
qed (simp_all add: get_aggregated_telemetry_def Let_def)

theorem energy_distance_accumulate_witness:
  "(3600 - last_update (aggregator_init 0 0) > 0)
   \<and> total_energy (snd (get_aggregated_telemetry 3600 battery_ex 10 motor_ex temp_ex
         (aggregator_init 0 0))) = 100
   \<and> total_distance (snd (get_aggregated_telemetry 3600 battery_ex 10 motor_ex temp_ex
         (aggregator_init 0 0))) = 0
   \<and> list_all (\<lambda>c. 0 \<le> m_power (call_motor c) \<and> 0 \<le> m_speed (call_motor c)) calls_ex
   \<and> sorted (total_energy (aggregator_init 0 0) #
         map total_energy_consumed (fst (run_aggregator calls_ex (aggregator_init 0 0))))
   \<and> sorted (total_distance (aggregator_init 0 0) #
         map tel_total_distance (fst (run_aggregator calls_ex (aggregator_init 0 0))))
   \<and> map total_energy_consumed (fst (run_aggregator calls_ex (aggregator_init 0 0)))
       = [100, 300]
   \<and> map tel_total_distance (fst (run_aggregator calls_ex (aggregator_init 0 0)))
       = [0, 20]"
  using energy_distance_accumulate [where now = 3600 and b = battery_ex and cap = 10
      and m = motor_ex and t = temp_ex and self = "aggregator_init 0 0" and cs = calls_ex]
  by (simp add: calls_ex_def motor_ex_def motor_moving_def aggregator_init_def
      aggregate_def get_aggregated_telemetry_def Let_def)

text \<open>
  C4. In every snapshot the efficiency is the energy total divided by the distance total
  when the distance total is positive and 0 otherwise, and the estimated range is
  \<open>(level / 100) * voltage * capacity\<close> divided by the efficiency when the efficiency is
  positive and 0 otherwise. The totals are those after the call's accumulation.
\<close>

theorem efficiency_and_range:
  "energy_efficiency (fst (get_aggregated_telemetry now b cap m t self)) =
     (if total_distance (snd (get_aggregated_telemetry now b cap m t self)) > 0
      then total_energy (snd (get_aggregated_telemetry now b cap m t self)) /
           total_distance (snd (get_aggregated_telemetry now b cap m t self))
      else 0)
   \<and> estimated_range (fst (get_aggregated_telemetry now b cap m t self)) =
     (if energy_efficiency (fst (get_aggregated_telemetry now b cap m t self)) > 0
      then ((b_level b / 100) * b_voltage b * cap) /
           energy_efficiency (fst (get_aggregated_telemetry now b cap m t self))
      else 0)"
  by (simp add: get_aggregated_telemetry_def Let_def)

theorem efficiency_and_range_witness:
  "energy_efficiency
     (fst (get_aggregated_telemetry 7200 battery_ex 10 motor_moving temp_ex
        \<lparr>start_time = 0, total_energy = 100, total_distance = 0, last_update = 3600\<rparr>)) = 15
   \<and> estimated_range
     (fst (get_aggregated_telemetry 7200 battery_ex 10 motor_moving temp_ex
        \<lparr>start_time = 0, total_energy = 100, total_distance = 0, last_update = 3600\<rparr>)) = 6
   \<and> energy_efficiency
     (fst (get_aggregated_telemetry 3600 battery_ex 10 motor_ex temp_ex
        (aggregator_init 0 0))) = 0
   \<and> estimated_range
     (fst (get_aggregated_telemetry 3600 battery_ex 10 motor_ex temp_ex
        (aggregator_init 0 0))) = 0"
  using efficiency_and_range [where now = 7200 and b = battery_ex and cap = 10
      and m = motor_moving and t = temp_ex and self =
        "\<lparr>start_time = 0, total_energy = 100, total_distance = 0, last_update = 3600\<rparr>"]
    efficiency_and_range [where now = 3600 and b = battery_ex and cap = 10
      and m = motor_ex and t = temp_ex and self = "aggregator_init 0 0"]
  by (simp add: motor_ex_def motor_moving_def battery_ex_def aggregator_init_def
      get_aggregated_telemetry_def Let_def)

section \<open>Environmental sensor simulator: closed form of one sample\<close>

text \<open>
  One call of \<open>get_sensor_data\<close>, executed symbolically: the simulator after the call as
  updates of the simulator before it, with every drawn value named by its position in
  the stream.
\<close>

lemma get_sensor_data_disabled:
  assumes "gas_status self \<noteq> ENABLE_GAS_MEAS"
  shows "get_sensor_data now g self =
    (True,
     self\<lparr>bme_last_update := now,
       time_of_day_hours :=
         py_mod (time_of_day_hours self + (now - bme_last_update self) / 3600) 24,
       temp_trend :=
         max (- 2) (min 2 (temp_trend self
            + (draws g (pos g) - 0.5) * 0.1 * (now - bme_last_update self))),
       pressure_trend :=
         max (- 10) (min 10 (pressure_trend self
            - (max (- 2) (min 2 (temp_trend self
                 + (draws g (pos g) - 0.5) * 0.1 * (now - bme_last_update self))) * 0.5)
            + (draws g (Suc (Suc (pos g))) - 0.5) * 0.5 * (now - bme_last_update self))),
       humidity_trend :=
         max (- 20) (min 20 (humidity_trend self
            + (draws g (Suc (Suc (Suc (Suc (pos g))))) - 0.5) * 0.5
              * (now - bme_last_update self))),
       data := (data self)
         \<lparr>temperature :=
            py_round (25
              + max (- 2) (min 2 (temp_trend self
                  + (draws g (pos g) - 0.5) * 0.1 * (now - bme_last_update self)))
              + 5 * sin (((py_mod (time_of_day_hours self
                    + (now - bme_last_update self) / 3600) 24 - 8) / 24) * 2 * pi)
              + (draws g (Suc (pos g)) - 0.5) * 0.3) 2,
          pressure :=
            py_round (1013.25
              + max (- 10) (min 10 (pressure_trend self
                  - (max (- 2) (min 2 (temp_trend self
                       + (draws g (pos g) - 0.5) * 0.1 * (now - bme_last_update self))) * 0.5)
                  + (draws g (Suc (Suc (pos g))) - 0.5) * 0.5 * (now - bme_last_update self)))
              + (draws g (Suc (Suc (Suc (pos g)))) - 0.5) * 0.5) 2,
          humidity :=
            py_round (max 0 (min 100 (50
              + max (- 20) (min 20 (humidity_trend self
                  + (draws g (Suc (Suc (Suc (Suc (pos g))))) - 0.5) * 0.5
                    * (now - bme_last_update self)))
              + - 10 * sin (((py_mod (time_of_day_hours self
                    + (now - bme_last_update self) / 3600) 24 - 8) / 24) * 2 * pi)
              + (draws g (Suc (Suc (Suc (Suc (Suc (pos g)))))) - 0.5) * 2))) 2,
          heat_stable := False\<rparr>\<rparr>,
     g\<lparr>pos := Suc (Suc (Suc (Suc (Suc (Suc (pos g))))))\<rparr>)"
proof (cases self)
  case (fields a1 d a3 a4 a5 a6 a7 a8 a9 a10 a11 a12 a13 a14 a15)
  obtain dr p where g: "g = \<lparr>draws = dr, pos = p\<rparr>" by (cases g) simp
  obtain t pr h gr hs where d: "d = \<lparr>temperature = t, pressure = pr, humidity = h,
      gas_resistance = gr, heat_stable = hs\<rparr>" by (cases d) simp
  have a7: "a7 \<noteq> ENABLE_GAS_MEAS" using assms fields by simp
  show ?thesis
    unfolding fields g d
    by (simp only: get_sensor_data_def random_random_def Let_def prod.case
        BME680Simulator.simps SensorData.simps rng.simps a7 if_False if_True
        cong: let_weak_cong if_weak_cong)
qed

lemma get_sensor_data_enabled:
  assumes "gas_status self = ENABLE_GAS_MEAS"
  shows "get_sensor_data now g self =
    (True,
     self\<lparr>bme_last_update := now,
       time_of_day_hours :=
         py_mod (time_of_day_hours self + (now - bme_last_update self) / 3600) 24,
       temp_trend :=
         max (- 2) (min 2 (temp_trend self
            + (draws g (pos g) - 0.5) * 0.1 * (now - bme_last_update self))),
       pressure_trend :=
         max (- 10) (min 10 (pressure_trend self
            - (max (- 2) (min 2 (temp_trend self
                 + (draws g (pos g) - 0.5) * 0.1 * (now - bme_last_update self))) * 0.5)
            + (draws g (Suc (Suc (pos g))) - 0.5) * 0.5 * (now - bme_last_update self))),
       humidity_trend :=
         max (- 20) (min 20 (humidity_trend self
            + (draws g (Suc (Suc (Suc (Suc (pos g))))) - 0.5) * 0.5
              * (now - bme_last_update self))),
       data := (data self)
         \<lparr>temperature :=
            py_round (25
              + max (- 2) (min 2 (temp_trend self
                  + (draws g (pos g) - 0.5) * 0.1 * (now - bme_last_update self)))
              + 5 * sin (((py_mod (time_of_day_hours self
                    + (now - bme_last_update self) / 3600) 24 - 8) / 24) * 2 * pi)
              + (draws g (Suc (pos g)) - 0.5) * 0.3) 2,
          pressure :=
            py_round (1013.25
              + max (- 10) (min 10 (pressure_trend self
                  - (max (- 2) (min 2 (temp_trend self
                       + (draws g (pos g) - 0.5) * 0.1 * (now - bme_last_update self))) * 0.5)
                  + (draws g (Suc (Suc (pos g))) - 0.5) * 0.5 * (now - bme_last_update self)))
              + (draws g (Suc (Suc (Suc (pos g)))) - 0.5) * 0.5) 2,
          humidity :=
            py_round (max 0 (min 100 (50
              + max (- 20) (min 20 (humidity_trend self
                  + (draws g (Suc (Suc (Suc (Suc (pos g))))) - 0.5) * 0.5
                    * (now - bme_last_update self)))
              + - 10 * sin (((py_mod (time_of_day_hours self
                    + (now - bme_last_update self) / 3600) 24 - 8) / 24) * 2 * pi)
              + (draws g (Suc (Suc (Suc (Suc (Suc (pos g)))))) - 0.5) * 2))) 2,
          gas_resistance :=
            gas_resistance_value
              (py_round (max 0 (min 100 (50
                  + max (- 20) (min 20 (humidity_trend self
                      + (draws g (Suc (Suc (Suc (Suc (pos g))))) - 0.5) * 0.5
                        * (now - bme_last_update self)))
                  + - 10 * sin (((py_mod (time_of_day_hours self
                        + (now - bme_last_update self) / 3600) 24 - 8) / 24) * 2 * pi)
                  + (draws g (Suc (Suc (Suc (Suc (Suc (pos g)))))) - 0.5) * 2))) 2)
              (py_mod (time_of_day_hours self + (now - bme_last_update self) / 3600) 24)
              (draws g (Suc (Suc (Suc (Suc (Suc (Suc (pos g)))))))),
          heat_stable := (gas_heater_temp self > 200 \<and> gas_heater_duration self > 100)\<rparr>\<rparr>,
     g\<lparr>pos := Suc (Suc (Suc (Suc (Suc (Suc (Suc (pos g)))))))\<rparr>)"
proof (cases self)
  case (fields a1 d a3 a4 a5 a6 a7 a8 a9 a10 a11 a12 a13 a14 a15)
  obtain dr p where g: "g = \<lparr>draws = dr, pos = p\<rparr>" by (cases g) simp
  obtain t pr h gr hs where d: "d = \<lparr>temperature = t, pressure = pr, humidity = h,
      gas_resistance = gr, heat_stable = hs\<rparr>" by (cases d) simp
  have a7: "a7 = ENABLE_GAS_MEAS" using assms fields by simp
  show ?thesis
  proof (cases "a8 > 200 \<and> a9 > 100")
    case True
    then have c: "(a8 > 200 \<and> a9 > 100) = True" by simp
    show ?thesis
      unfolding fields g d
      by (simp only: get_sensor_data_def random_random_def Let_def prod.case
          BME680Simulator.simps SensorData.simps rng.simps gas_resistance_value_def a7 c if_False if_True simp_thms
          cong: let_weak_cong if_weak_cong)
  next
    case False
    then have c: "(a8 > 200 \<and> a9 > 100) = False" by simp
    show ?thesis
      unfolding fields g d
      by (simp only: get_sensor_data_def random_random_def Let_def prod.case
          BME680Simulator.simps SensorData.simps rng.simps gas_resistance_value_def a7 c if_False if_True simp_thms
          cong: let_weak_cong if_weak_cong)
  qed
qed


lemma get_sensor_data_ok: "fst (get_sensor_data now g self) = True"
  by (cases "gas_status self = ENABLE_GAS_MEAS")
     (simp_all only: get_sensor_data_disabled get_sensor_data_enabled fst_conv simp_thms)

lemma get_sensor_data_humidity:
  "humidity (data (fst (snd (get_sensor_data now g self)))) =
     py_round (max 0 (min 100 (50
       + max (- 20) (min 20 (humidity_trend self
           + (draws g (Suc (Suc (Suc (Suc (pos g))))) - 0.5) * 0.5
             * (now - bme_last_update self)))
       + - 10 * sin (((py_mod (time_of_day_hours self
             + (now - bme_last_update self) / 3600) 24 - 8) / 24) * 2 * pi)
       + (draws g (Suc (Suc (Suc (Suc (Suc (pos g)))))) - 0.5) * 2))) 2"
  by (cases "gas_status self = ENABLE_GAS_MEAS")
     (simp_all add: get_sensor_data_disabled get_sensor_data_enabled)

lemma get_sensor_data_temp_trend:
  "temp_trend (fst (snd (get_sensor_data now g self))) =
     max (- 2) (min 2 (temp_trend self
        + (draws g (pos g) - 0.5) * 0.1 * (now - bme_last_update self)))"
  by (cases "gas_status self = ENABLE_GAS_MEAS")
     (simp_all add: get_sensor_data_disabled get_sensor_data_enabled)

lemma get_sensor_data_pressure_trend:
  "pressure_trend (fst (snd (get_sensor_data now g self))) =
     max (- 10) (min 10 (pressure_trend self
        - temp_trend (fst (snd (get_sensor_data now g self))) * 0.5
        + (draws g (Suc (Suc (pos g))) - 0.5) * 0.5 * (now - bme_last_update self)))"
  by (cases "gas_status self = ENABLE_GAS_MEAS")
     (simp_all add: get_sensor_data_disabled get_sensor_data_enabled)

lemma get_sensor_data_pressure:
  "pressure (data (fst (snd (get_sensor_data now g self)))) =
     py_round (1013.25 + pressure_trend (fst (snd (get_sensor_data now g self)))
        + (draws g (Suc (Suc (Suc (pos g)))) - 0.5) * 0.5) 2"
  by (cases "gas_status self = ENABLE_GAS_MEAS")
     (simp_all add: get_sensor_data_disabled get_sensor_data_enabled)

lemma get_sensor_data_heat_stable:
  "heat_stable (data (fst (snd (get_sensor_data now g self)))) =
     (gas_status self = ENABLE_GAS_MEAS
      \<and> gas_heater_temp self > 200 \<and> gas_heater_duration self > 100)"
  by (cases "gas_status self = ENABLE_GAS_MEAS")
     (simp_all add: get_sensor_data_disabled get_sensor_data_enabled)

lemma get_sensor_data_frame:
  "gas_status (fst (snd (get_sensor_data now g self))) = gas_status self"
  "gas_heater_temp (fst (snd (get_sensor_data now g self))) = gas_heater_temp self"
  "gas_heater_duration (fst (snd (get_sensor_data now g self))) = gas_heater_duration self"
  "bme_last_update (fst (snd (get_sensor_data now g self))) = now"
  by (cases "gas_status self = ENABLE_GAS_MEAS";
      simp add: get_sensor_data_disabled get_sensor_data_enabled)+

lemma get_sensor_data_rng:
  "draws (snd (snd (get_sensor_data now g self))) = draws g"
  "pos (snd (snd (get_sensor_data now g self))) =
     (if gas_status self = ENABLE_GAS_MEAS then pos g + 7 else pos g + 6)"
  by (cases "gas_status self = ENABLE_GAS_MEAS";
      simp add: get_sensor_data_disabled get_sensor_data_enabled)+

section \<open>Rounding\<close>

lemma round_half_even_bounds:
  assumes "of_int a \<le> y" and "y \<le> of_int b"
  shows "a \<le> round_half_even y \<and> round_half_even y \<le> b"
proof -
  have lo: "a \<le> \<lfloor>y\<rfloor>" using assms(1) by (simp add: le_floor_iff)
  have hi: "\<lfloor>y\<rfloor> \<le> b" using assms(2) by (simp add: floor_le_iff)
  have strict: "\<lfloor>y\<rfloor> + 1 \<le> b" if "y - of_int \<lfloor>y\<rfloor> \<ge> 1 / 2"
  proof -
    have "of_int \<lfloor>y\<rfloor> < y" using that by linarith
    then have "of_int \<lfloor>y\<rfloor> < (of_int b :: real)" using assms(2) by linarith
    then have "\<lfloor>y\<rfloor> < b" by simp
    then show ?thesis by simp
  qed
  show ?thesis
    unfolding round_half_even_def Let_def using lo hi strict by auto
qed

lemma py_round_2_percent:
  assumes "0 \<le> x" and "x \<le> 100"
  shows "0 \<le> py_round x 2 \<and> py_round x 2 \<le> 100"
proof -
  have "of_int 0 \<le> x * 10 ^ 2" using assms(1) by simp
  moreover have "x * 10 ^ 2 \<le> of_int 10000" using assms(2) by simp
  ultimately have "0 \<le> round_half_even (x * 10 ^ 2) \<and> round_half_even (x * 10 ^ 2) \<le> 10000"
    by (rule round_half_even_bounds)
  then have "0 \<le> (of_int (round_half_even (x * 10 ^ 2)) :: real)
      \<and> (of_int (round_half_even (x * 10 ^ 2)) :: real) \<le> 10000"
    by simp
  then show ?thesis by (simp add: py_round_def)
qed

section \<open>Environmental sensor simulator: bounds over a run\<close>

lemma get_sensor_data_humidity_bounds:
  "0 \<le> humidity (data (fst (snd (get_sensor_data now g self))))
   \<and> humidity (data (fst (snd (get_sensor_data now g self)))) \<le> 100"
  unfolding get_sensor_data_humidity
  by (rule py_round_2_percent) simp_all

lemma run_bme_Cons:
  "fst (run_bme (now # nows) g self) =
     data (fst (snd (get_sensor_data now g self))) #
     fst (run_bme nows (snd (snd (get_sensor_data now g self)))
            (fst (snd (get_sensor_data now g self))))"
  by (simp add: split_def Let_def)

lemma length_run_bme: "length (fst (run_bme nows g self)) = length nows"
  by (induction nows arbitrary: g self) (simp_all add: split_def Let_def)

lemma length_run_aggregator: "length (fst (run_aggregator cs self)) = length cs"
  by (induction cs arbitrary: self) (simp_all add: split_def Let_def)

lemma run_bme_humidity:
  "\<forall>d\<in>set (fst (run_bme nows g self)). 0 \<le> humidity d \<and> humidity d \<le> 100"
proof (induction nows arbitrary: g self)
  case Nil
  then show ?case by simp
next
  case (Cons now nows)
  show ?case
    unfolding run_bme_Cons using Cons.IH get_sensor_data_humidity_bounds by simp
qed

text \<open>
  C3. Over every sequence of samples of the environmental simulator, whatever the clock
  readings of the calls (so for every elapsed time, negative ones included) and whatever
  the draws, each stored humidity lies in \<open>[0, 100]\<close>; over every sequence of aggregator
  calls, each snapshot's health score lies in \<open>[0, 100]\<close>.
\<close>

theorem humidity_and_health_bounded:
  "(\<forall>d\<in>set (fst (run_bme nows g self)). 0 \<le> humidity d \<and> humidity d \<le> 100)
   \<and> (\<forall>snap\<in>set (fst (run_aggregator cs a)).
         0 \<le> system_health snap \<and> system_health snap \<le> 100)"
  using run_bme_humidity run_aggregator_health by blast

theorem humidity_and_health_bounded_witness:
  "length (fst (run_bme [40, 41, 3641] rng_bme bme0)) = 3
   \<and> list_all (\<lambda>d. 0 \<le> humidity d \<and> humidity d \<le> 100)
        (fst (run_bme [40, 41, 3641] rng_bme bme0))
   \<and> length (fst (run_aggregator calls_ex (aggregator_init 0 0))) = 2
   \<and> list_all (\<lambda>snap. 0 \<le> system_health snap \<and> system_health snap \<le> 100)
        (fst (run_aggregator calls_ex (aggregator_init 0 0)))"
  using humidity_and_health_bounded [where nows = "[40, 41, 3641]" and g = rng_bme
      and self = bme0 and cs = calls_ex and a = "aggregator_init 0 0"]
  by (simp only: list_all_iff length_run_bme length_run_aggregator calls_ex_def list.size)
     simp

section \<open>Environmental sensor simulator: the gas fields\<close>

lemma read_sensor_reading:
  "fst (read_sensor iso_now now g sensor) =
     (let s = fst (snd (get_sensor_data now g sensor));
          reading = [''temperature'' \<mapsto> PyFloat (py_round (temperature (data s)) 2),
                     ''pressure'' \<mapsto> PyFloat (py_round (pressure (data s)) 2),
                     ''humidity'' \<mapsto> PyFloat (py_round (humidity (data s)) 2),
                     ''timestamp'' \<mapsto> PyStr iso_now]
      in if heat_stable (data s)
         then reading(''gas_resistance'' \<mapsto> PyFloat (gas_resistance (data s)))
         else reading)"
  unfolding read_sensor_def Let_def split_def
  by (simp only: get_sensor_data_ok if_True fst_conv if_distrib [of fst])

lemma read_sensor_gas_key:
  "(''gas_resistance'' \<in> dom (fst (read_sensor iso_now now g sensor))) =
     heat_stable (data (fst (snd (get_sensor_data now g sensor))))"
  unfolding read_sensor_reading Let_def by simp

text \<open>
  C6. In the reading that the collector builds from a sample, the key
  \<^verbatim>\<open>gas_resistance\<close> is present only when gas measurement is enabled and the heater
  temperature exceeds 200 and the heater duration exceeds 100, and it is absent when
  gas measurement is disabled. With gas measurement enabled \<open>heat_stable\<close> holds
  exactly when both thresholds are exceeded, and with gas measurement disabled it is
  false.
\<close>

theorem gas_fields:
  "(''gas_resistance'' \<in> dom (fst (read_sensor iso_now now g self)) \<longrightarrow>
      gas_status self = ENABLE_GAS_MEAS
      \<and> gas_heater_temp self > 200 \<and> gas_heater_duration self > 100)
   \<and> (gas_status self \<noteq> ENABLE_GAS_MEAS \<longrightarrow>
        ''gas_resistance'' \<notin> dom (fst (read_sensor iso_now now g self)))
   \<and> (gas_status self = ENABLE_GAS_MEAS \<longrightarrow>
        heat_stable (data (fst (snd (get_sensor_data now g self)))) =
          (gas_heater_temp self > 200 \<and> gas_heater_duration self > 100))
   \<and> (gas_status self \<noteq> ENABLE_GAS_MEAS \<longrightarrow>
        \<not> heat_stable (data (fst (snd (get_sensor_data now g self)))))"
  by (simp add: read_sensor_gas_key get_sensor_data_heat_stable)

theorem gas_fields_witness:
  "gas_status bme_gas = ENABLE_GAS_MEAS
   \<and> gas_heater_temp bme_gas = 320 \<and> gas_heater_duration bme_gas = 150
   \<and> ''gas_resistance'' \<in> dom (fst (read_sensor ''t'' 40 rng_half bme_gas))
   \<and> heat_stable (data (fst (snd (get_sensor_data 40 rng_half bme_gas))))
   \<and> gas_status bme0 \<noteq> ENABLE_GAS_MEAS
   \<and> ''gas_resistance'' \<notin> dom (fst (read_sensor ''t'' 40 rng_half bme0))
   \<and> \<not> heat_stable (data (fst (snd (get_sensor_data 40 rng_half bme0))))
   \<and> gas_status (set_gas_heater_temperature 150 bme_gas) = ENABLE_GAS_MEAS
   \<and> \<not> heat_stable (data (fst (snd (get_sensor_data 40 rng_half
          (set_gas_heater_temperature 150 bme_gas)))))"
  using gas_fields [where iso_now = "''t''" and now = 40 and g = rng_half and self = bme_gas]
    gas_fields [where iso_now = "''t''" and now = 40 and g = rng_half and self = bme0]
    gas_fields [where iso_now = "''t''" and now = 40 and g = rng_half
      and self = "set_gas_heater_temperature 150 bme_gas"]
  by (simp add: bme_gas_def bme0_def BME680Simulator_init_def set_gas_status_def
      set_gas_heater_temperature_def set_gas_heater_duration_def
      ENABLE_GAS_MEAS_def DISABLE_GAS_MEAS_def read_sensor_gas_key
      get_sensor_data_heat_stable)

section \<open>Environmental sensor simulator: the pressure step\<close>

lemma bme0_fields:
  "temp_trend bme0 = 0" "pressure_trend bme0 = 0" "bme_last_update bme0 = 0"
  "gas_status bme0 = DISABLE_GAS_MEAS"
  by (simp_all add: bme0_def BME680Simulator_init_def)

lemma rng_bme_fields:
  "pos rng_bme = 0"
  "draws rng_bme = (\<lambda>i. if i = 0 then 3 / 4 else if i = 9 then 253 / 500 else 1 / 2)"
  by (simp_all add: rng_bme_def)

lemma bme1_fields:
  "temp_trend bme1 = 1" "pressure_trend bme1 = - (1 / 2)" "bme_last_update bme1 = 40"
  "gas_status bme1 = DISABLE_GAS_MEAS"
  unfolding bme1_def get_sensor_data_pressure_trend get_sensor_data_temp_trend
    get_sensor_data_frame
  by (simp_all add: bme0_fields rng_bme_fields)

lemma rng_bme1_fields:
  "pos rng_bme1 = 6"
  "draws rng_bme1 = (\<lambda>i. if i = 0 then 3 / 4 else if i = 9 then 253 / 500 else 1 / 2)"
  unfolding rng_bme1_def get_sensor_data_rng
  by (simp_all add: bme0_fields rng_bme_fields ENABLE_GAS_MEAS_def DISABLE_GAS_MEAS_def)

lemma bme2_fields:
  "temp_trend bme2 = 1" "pressure_trend bme2 = - 1" "pressure (data bme2) = 1012.25"
  unfolding bme2_def get_sensor_data_pressure get_sensor_data_pressure_trend
    get_sensor_data_temp_trend
  by (simp_all add: bme1_fields rng_bme1_fields py_round_def round_half_even_def Let_def)

text \<open>
  C7 as stated fails. After a first sample at 40 s that moves the temperature trend from
  0 to 1, a second sample one second later leaves the temperature trend at 1 (its change
  is 0). The specification's step would keep the pressure trend at \<open>- 1 / 2\<close>; the code
  moves it to \<open>- 1\<close>, because it subtracts half of the temperature trend itself. The
  pressure stored is rounded to two decimals, so it is 1012.25 and not the sum 1012.253.
\<close>

theorem pressure_step_counterexample:
  "temp_trend bme2 - temp_trend bme1 = 0
   \<and> pressure_trend_spec (pressure_trend bme1) (temp_trend bme1) (temp_trend bme2)
        (draws rng_bme1 (Suc (Suc (pos rng_bme1)))) (41 - bme_last_update bme1) = - (1 / 2)
   \<and> pressure_trend bme2 = - 1
   \<and> pressure_trend bme2 \<noteq>
       pressure_trend_spec (pressure_trend bme1) (temp_trend bme1) (temp_trend bme2)
        (draws rng_bme1 (Suc (Suc (pos rng_bme1)))) (41 - bme_last_update bme1)
   \<and> pressure_spec (pressure_trend bme2) (draws rng_bme1 (Suc (Suc (Suc (pos rng_bme1)))))
       = 1012.253
   \<and> pressure (data bme2) = 1012.25
   \<and> pressure (data bme2) \<noteq>
       pressure_spec (pressure_trend bme2) (draws rng_bme1 (Suc (Suc (Suc (pos rng_bme1)))))"
  by (simp add: bme1_fields bme2_fields rng_bme1_fields pressure_trend_spec_def
      pressure_spec_def)

text \<open>
  C7, amended. On every sample with elapsed time \<open>e\<close> the pressure trend becomes its
  old value minus half of the temperature trend as just updated in the same step (the
  trend's value, not its change), plus the perturbation \<open>(u - 0.5) * 0.5 * e\<close> of its own
  draw \<open>u\<close>, clamped to \<open>[- 10, 10]\<close>. The stored pressure is 1013.25 plus the new
  pressure trend plus the noise \<open>(u' - 0.5) * 0.5\<close> of the next draw, rounded to two
  decimals; for a draw in \<open>[0, 1)\<close> the noise lies in \<open>[- 0.25, 0.25)\<close>.
\<close>

theorem pressure_step:
  "temp_trend (fst (snd (get_sensor_data now g self))) =
     max (- 2) (min 2 (temp_trend self
       + (draws g (pos g) - 0.5) * 0.1 * (now - bme_last_update self)))
   \<and> pressure_trend (fst (snd (get_sensor_data now g self))) =
     max (- 10) (min 10 (pressure_trend self
       - temp_trend (fst (snd (get_sensor_data now g self))) * 0.5
       + (draws g (Suc (Suc (pos g))) - 0.5) * 0.5 * (now - bme_last_update self)))
   \<and> - 10 \<le> pressure_trend (fst (snd (get_sensor_data now g self)))
   \<and> pressure_trend (fst (snd (get_sensor_data now g self))) \<le> 10
   \<and> pressure (data (fst (snd (get_sensor_data now g self)))) =
     py_round (1013.25 + pressure_trend (fst (snd (get_sensor_data now g self)))
       + (draws g (Suc (Suc (Suc (pos g)))) - 0.5) * 0.5) 2
   \<and> (0 \<le> draws g (Suc (Suc (Suc (pos g)))) \<and> draws g (Suc (Suc (Suc (pos g)))) < 1 \<longrightarrow>
        - 0.25 \<le> (draws g (Suc (Suc (Suc (pos g)))) - 0.5) * 0.5
        \<and> (draws g (Suc (Suc (Suc (pos g)))) - 0.5) * 0.5 < 0.25)"
proof -
  have trend: "pressure_trend (fst (snd (get_sensor_data now g self))) =
     max (- 10) (min 10 (pressure_trend self
       - temp_trend (fst (snd (get_sensor_data now g self))) * 0.5
       + (draws g (Suc (Suc (pos g))) - 0.5) * 0.5 * (now - bme_last_update self)))"
    by (rule get_sensor_data_pressure_trend)
  have lo: "- 10 \<le> pressure_trend (fst (snd (get_sensor_data now g self)))"
    by (subst trend) simp
  have hi: "pressure_trend (fst (snd (get_sensor_data now g self))) \<le> 10"
    by (subst trend) simp
  have noise: "- 0.25 \<le> (draws g (Suc (Suc (Suc (pos g)))) - 0.5) * 0.5
      \<and> (draws g (Suc (Suc (Suc (pos g)))) - 0.5) * 0.5 < 0.25"
    if "0 \<le> draws g (Suc (Suc (Suc (pos g)))) \<and> draws g (Suc (Suc (Suc (pos g)))) < 1"
    using that by simp
  show ?thesis
    using trend lo hi noise get_sensor_data_temp_trend [of now g self]
      get_sensor_data_pressure [of now g self]
    by blast
qed

theorem pressure_step_witness:
  "0 \<le> draws rng_bme1 (Suc (Suc (Suc (pos rng_bme1))))
   \<and> draws rng_bme1 (Suc (Suc (Suc (pos rng_bme1)))) < 1
   \<and> - 0.25 \<le> (draws rng_bme1 (Suc (Suc (Suc (pos rng_bme1)))) - 0.5) * 0.5
   \<and> (draws rng_bme1 (Suc (Suc (Suc (pos rng_bme1)))) - 0.5) * 0.5 < 0.25
   \<and> temp_trend bme2 = 1
   \<and> pressure_trend bme2 = pressure_trend bme1 - temp_trend bme2 * 0.5
   \<and> pressure_trend bme2 = - 1
   \<and> pressure (data bme2) = py_round (1013.25 + pressure_trend bme2 + (253 / 500 - 0.5) * 0.5) 2
   \<and> pressure (data bme2) = 1012.25"
  using pressure_step [where now = 41 and g = rng_bme1 and self = bme1]
  by (simp add: bme1_fields bme2_fields rng_bme1_fields bme2_def [symmetric]
      py_round_def round_half_even_def Let_def)

section \<open>Inertial sensor simulator: closed forms\<close>

text \<open>
  Each operation executed symbolically: the simulator after the operation as updates of
  the simulator before it, with every drawn value named by its position in the stream.
\<close>

lemma schedule_next_event_closed:
  "schedule_next_event now g self =
     (self\<lparr>scenario_start := now + (20 + (60 - 20) * draws g (pos g)),
           scenario := (if draws g (Suc (pos g)) < 0.3 then Fall else Pothole),
           scenario_duration := (if draws g (Suc (pos g)) < 0.3 then 2 else 0.5)\<rparr>,
      g\<lparr>pos := (Suc (Suc (pos g)))\<rparr>)"
proof (cases self)
  case (fields a1 a2 a3 a4 a5 a6 a7 a8 a9 a10 a11 a12 a13)
  obtain dr p where g: "g = \<lparr>draws = dr, pos = p\<rparr>" by (cases g) simp
  show ?thesis
  proof (cases "dr (Suc p) < 0.3")
    case True
    then have ct: "(dr (Suc p) < 0.3) = True" by simp
    show ?thesis
      unfolding fields g
      by (simp only: schedule_next_event_def random_choice_def random_uniform_def random_random_def
          Let_def prod.case MPU6050Simulator.simps rng.simps ct if_True if_False simp_thms
          cong: let_weak_cong if_weak_cong)
  next
    case False
    then have ct: "(dr (Suc p) < 0.3) = False" by simp
    show ?thesis
      unfolding fields g
      by (simp only: schedule_next_event_def random_choice_def random_uniform_def random_random_def
          Let_def prod.case MPU6050Simulator.simps rng.simps ct if_True if_False simp_thms
          cong: let_weak_cong if_weak_cong)
  qed
qed

lemma update_normal_riding_closed:
  "update_normal_riding g self =
     (self\<lparr>accel_x := - 0.5 + (0.5 - - 0.5) * draws g (pos g),
           accel_y := - 0.5 + (0.5 - - 0.5) * draws g (Suc (pos g)),
           accel_z := 9.8 + (- 0.3 + (0.3 - - 0.3) * draws g (Suc (Suc (pos g)))),
           gyro_x := - 0.2 + (0.2 - - 0.2) * draws g (Suc (Suc (Suc (pos g)))),
           gyro_y := - 0.2 + (0.2 - - 0.2) * draws g (Suc (Suc (Suc (Suc (pos g))))),
           gyro_z := (if draws g (Suc (Suc (Suc (Suc (Suc (Suc (pos g))))))) < 0.05
                      then (if draws g (Suc (Suc (Suc (Suc (Suc (Suc (Suc (pos g)))))))) < 0.5 then 1 else - 1) * (0.5 + (1.5 - 0.5) * draws g (Suc (Suc (Suc (Suc (Suc (Suc (Suc (Suc (pos g))))))))))
                      else - 0.1 + (0.1 - - 0.1) * draws g (Suc (Suc (Suc (Suc (Suc (pos g)))))))\<rparr>,
      g\<lparr>pos := (if draws g (Suc (Suc (Suc (Suc (Suc (Suc (pos g))))))) < 0.05 then (Suc (Suc (Suc (Suc (Suc (Suc (Suc (Suc (Suc (pos g)))))))))) else (Suc (Suc (Suc (Suc (Suc (Suc (Suc (pos g)))))))))\<rparr>)"
proof (cases self)
  case (fields a1 a2 a3 a4 a5 a6 a7 a8 a9 a10 a11 a12 a13)
  obtain dr p where g: "g = \<lparr>draws = dr, pos = p\<rparr>" by (cases g) simp
  show ?thesis
  proof (cases "dr (Suc (Suc (Suc (Suc (Suc (Suc (p))))))) < 0.05")
    case True
    then have ct: "(dr (Suc (Suc (Suc (Suc (Suc (Suc (p))))))) < 0.05) = True" by simp
    show ?thesis
      unfolding fields g
      by (simp only: update_normal_riding_def random_choice_def random_uniform_def random_random_def
          Let_def prod.case MPU6050Simulator.simps rng.simps ct if_True if_False simp_thms
          cong: let_weak_cong if_weak_cong)
  next
    case False
    then have ct: "(dr (Suc (Suc (Suc (Suc (Suc (Suc (p))))))) < 0.05) = False" by simp
    show ?thesis
      unfolding fields g
      by (simp only: update_normal_riding_def random_choice_def random_uniform_def random_random_def
          Let_def prod.case MPU6050Simulator.simps rng.simps ct if_True if_False simp_thms
          cong: let_weak_cong if_weak_cong)
  qed
qed

lemma update_fall_lean:
  assumes "progress < 0.1"
  shows "update_fall progress g self =
     (self\<lparr>accel_x := 9.8 * sin (progress * 10 * pi / 180),
           accel_z := 9.8 * cos (progress * 10 * pi / 180),
           gyro_x := 0.5 + (1 - 0.5) * draws g (pos g)\<rparr>,
      g\<lparr>pos := (Suc (pos g))\<rparr>)"
proof (cases self)
  case (fields a1 a2 a3 a4 a5 a6 a7 a8 a9 a10 a11 a12 a13)
  obtain dr p where g: "g = \<lparr>draws = dr, pos = p\<rparr>" by (cases g) simp
  have c0: "(progress < 0.1) = True" using assms by simp
  show ?thesis
    unfolding fields g
      by (simp only: update_fall_def random_choice_def random_uniform_def random_random_def
          Let_def prod.case MPU6050Simulator.simps rng.simps c0 if_True if_False simp_thms
          cong: let_weak_cong if_weak_cong)
qed

lemma update_fall_free:
  assumes "\<not> progress < 0.1" and "progress < 0.3"
  shows "update_fall progress g self =
     (self\<lparr>accel_x := - 1 + (1 - - 1) * draws g (pos g),
           accel_y := - 1 + (1 - - 1) * draws g (Suc (pos g)),
           accel_z := - 1 + (1 - - 1) * draws g (Suc (Suc (pos g))),
           gyro_x := 2 + (5 - 2) * draws g (Suc (Suc (Suc (pos g)))),
           gyro_y := - 2 + (2 - - 2) * draws g (Suc (Suc (Suc (Suc (pos g)))))\<rparr>,
      g\<lparr>pos := (Suc (Suc (Suc (Suc (Suc (pos g))))))\<rparr>)"
proof (cases self)
  case (fields a1 a2 a3 a4 a5 a6 a7 a8 a9 a10 a11 a12 a13)
  obtain dr p where g: "g = \<lparr>draws = dr, pos = p\<rparr>" by (cases g) simp
  have c0: "(progress < 0.1) = False" using assms by simp
  have c1: "(progress < 0.3) = True" using assms by simp
  show ?thesis
    unfolding fields g
      by (simp only: update_fall_def random_choice_def random_uniform_def random_random_def
          Let_def prod.case MPU6050Simulator.simps rng.simps c0 c1 if_True if_False simp_thms
          cong: let_weak_cong if_weak_cong)
qed

lemma update_fall_impact:
  assumes "\<not> progress < 0.1" and "\<not> progress < 0.3" and "progress < 0.4"
  shows "update_fall progress g self =
     (self\<lparr>accel_x := (if draws g (pos g) < 1 / 2 then 25 + (35 - 25) * draws g (Suc (pos g)) else - 5 + (5 - - 5) * draws g (Suc (pos g))),
           accel_y := (if draws g (pos g) < 1 / 2 then - 5 + (5 - - 5) * draws g (Suc (Suc (pos g))) else 25 + (35 - 25) * draws g (Suc (Suc (pos g)))),
           accel_z := 5 + (10 - 5) * draws g (Suc (Suc (Suc (pos g)))),
           gyro_x := - 10 + (10 - - 10) * draws g (Suc (Suc (Suc (Suc (pos g))))),
           gyro_y := - 10 + (10 - - 10) * draws g (Suc (Suc (Suc (Suc (Suc (pos g)))))),
           gyro_z := - 10 + (10 - - 10) * draws g (Suc (Suc (Suc (Suc (Suc (Suc (pos g)))))))\<rparr>,
      g\<lparr>pos := (Suc (Suc (Suc (Suc (Suc (Suc (Suc (pos g))))))))\<rparr>)"
proof (cases self)
  case (fields a1 a2 a3 a4 a5 a6 a7 a8 a9 a10 a11 a12 a13)
  obtain dr p where g: "g = \<lparr>draws = dr, pos = p\<rparr>" by (cases g) simp
  have c0: "(progress < 0.1) = False" using assms by simp
  have c1: "(progress < 0.3) = False" using assms by simp
  have c2: "(progress < 0.4) = True" using assms by simp
  have c3: "(''front'' = ''side'') = False" by simp
  have c4: "(''side'' = ''side'') = True" by simp
  show ?thesis
  proof (cases "dr p < 1 / 2")
    case True
    then have ct: "(dr p < 1 / 2) = True" by simp
    show ?thesis
      unfolding fields g
      by (simp only: update_fall_def random_choice_def random_uniform_def random_random_def
          Let_def prod.case MPU6050Simulator.simps rng.simps c0 c1 c2 c3 c4 ct if_True if_False simp_thms
          cong: let_weak_cong if_weak_cong)
  next
    case False
    then have ct: "(dr p < 1 / 2) = False" by simp
    show ?thesis
      unfolding fields g
      by (simp only: update_fall_def random_choice_def random_uniform_def random_random_def
          Let_def prod.case MPU6050Simulator.simps rng.simps c0 c1 c2 c3 c4 ct if_True if_False simp_thms
          cong: let_weak_cong if_weak_cong)
  qed
qed

lemma update_fall_rest:
  assumes "\<not> progress < 0.1" and "\<not> progress < 0.3" and "\<not> progress < 0.4"
  shows "update_fall progress g self =
     (self\<lparr>accel_x := 9.8 * sin ((60 + (90 - 60) * draws g (pos g)) * pi / 180),
           accel_y := - 1 + (1 - - 1) * draws g (Suc (pos g)),
           accel_z := 9.8 * cos ((60 + (90 - 60) * draws g (pos g)) * pi / 180),
           gyro_x := - 0.1 + (0.1 - - 0.1) * draws g (Suc (Suc (pos g))),
           gyro_y := - 0.1 + (0.1 - - 0.1) * draws g (Suc (Suc (Suc (pos g)))),
           gyro_z := - 0.1 + (0.1 - - 0.1) * draws g (Suc (Suc (Suc (Suc (pos g)))))\<rparr>,
      g\<lparr>pos := (Suc (Suc (Suc (Suc (Suc (pos g))))))\<rparr>)"
proof (cases self)
  case (fields a1 a2 a3 a4 a5 a6 a7 a8 a9 a10 a11 a12 a13)
  obtain dr p where g: "g = \<lparr>draws = dr, pos = p\<rparr>" by (cases g) simp
  have c0: "(progress < 0.1) = False" using assms by simp
  have c1: "(progress < 0.3) = False" using assms by simp
  have c2: "(progress < 0.4) = False" using assms by simp
  show ?thesis
    unfolding fields g
      by (simp only: update_fall_def random_choice_def random_uniform_def random_random_def
          Let_def prod.case MPU6050Simulator.simps rng.simps c0 c1 c2 if_True if_False simp_thms
          cong: let_weak_cong if_weak_cong)
qed

lemma update_pothole_drop:
  assumes "progress < 0.3"
  shows "update_pothole progress g self =
     (self\<lparr>accel_z := - 9.8 - (5 + (15 - 5) * draws g (pos g)),
           accel_x := - 2 + (2 - - 2) * draws g (Suc (pos g)),
           accel_y := - 2 + (2 - - 2) * draws g (Suc (Suc (pos g))),
           gyro_x := 2 + (4 - 2) * draws g (Suc (Suc (Suc (pos g)))),
           gyro_y := - 0.5 + (0.5 - - 0.5) * draws g (Suc (Suc (Suc (Suc (pos g))))),
           gyro_z := - 0.5 + (0.5 - - 0.5) * draws g (Suc (Suc (Suc (Suc (Suc (pos g))))))\<rparr>,
      g\<lparr>pos := (Suc (Suc (Suc (Suc (Suc (Suc (pos g)))))))\<rparr>)"
proof (cases self)
  case (fields a1 a2 a3 a4 a5 a6 a7 a8 a9 a10 a11 a12 a13)
  obtain dr p where g: "g = \<lparr>draws = dr, pos = p\<rparr>" by (cases g) simp
  have c0: "(progress < 0.3) = True" using assms by simp
  show ?thesis
    unfolding fields g
      by (simp only: update_pothole_def random_choice_def random_uniform_def random_random_def
          Let_def prod.case MPU6050Simulator.simps rng.simps c0 if_True if_False simp_thms
          cong: let_weak_cong if_weak_cong)
qed

lemma update_pothole_rebound:
  assumes "\<not> progress < 0.3" and "progress < 0.7"
  shows "update_pothole progress g self =
     (self\<lparr>accel_z := 9.8 + (5 + (15 - 5) * draws g (pos g)),
           accel_x := - 3 + (3 - - 3) * draws g (Suc (pos g)),
           accel_y := - 3 + (3 - - 3) * draws g (Suc (Suc (pos g))),
           gyro_x := - 3 + (- 1 - - 3) * draws g (Suc (Suc (Suc (pos g)))),
           gyro_y := - 0.5 + (0.5 - - 0.5) * draws g (Suc (Suc (Suc (Suc (pos g))))),
           gyro_z := - 0.5 + (0.5 - - 0.5) * draws g (Suc (Suc (Suc (Suc (Suc (pos g))))))\<rparr>,
      g\<lparr>pos := (Suc (Suc (Suc (Suc (Suc (Suc (pos g)))))))\<rparr>)"
proof (cases self)
  case (fields a1 a2 a3 a4 a5 a6 a7 a8 a9 a10 a11 a12 a13)
  obtain dr p where g: "g = \<lparr>draws = dr, pos = p\<rparr>" by (cases g) simp
  have c0: "(progress < 0.3) = False" using assms by simp
  have c1: "(progress < 0.7) = True" using assms by simp
  show ?thesis
    unfolding fields g
      by (simp only: update_pothole_def random_choice_def random_uniform_def random_random_def
          Let_def prod.case MPU6050Simulator.simps rng.simps c0 c1 if_True if_False simp_thms
          cong: let_weak_cong if_weak_cong)
qed

lemma update_pothole_settle:
  assumes "\<not> progress < 0.3" and "\<not> progress < 0.7"
  shows "update_pothole progress g self =
     (self\<lparr>accel_z := 9.8 + (- 2 + (2 - - 2) * draws g (pos g)) * (1 - progress) * 2,
           accel_x := (- 1 + (1 - - 1) * draws g (Suc (pos g))) * (1 - progress) * 2,
           accel_y := (- 1 + (1 - - 1) * draws g (Suc (Suc (pos g)))) * (1 - progress) * 2,
           gyro_x := (- 1 + (1 - - 1) * draws g (Suc (Suc (Suc (pos g))))) * (1 - progress) * 2,
           gyro_y := (- 0.5 + (0.5 - - 0.5) * draws g (Suc (Suc (Suc (Suc (pos g)))))) * (1 - progress) * 2,
           gyro_z := (- 0.5 + (0.5 - - 0.5) * draws g (Suc (Suc (Suc (Suc (Suc (pos g))))))) * (1 - progress) * 2\<rparr>,
      g\<lparr>pos := (Suc (Suc (Suc (Suc (Suc (Suc (pos g)))))))\<rparr>)"
proof (cases self)
  case (fields a1 a2 a3 a4 a5 a6 a7 a8 a9 a10 a11 a12 a13)
  obtain dr p where g: "g = \<lparr>draws = dr, pos = p\<rparr>" by (cases g) simp
  have c0: "(progress < 0.3) = False" using assms by simp
  have c1: "(progress < 0.7) = False" using assms by simp
  show ?thesis
    unfolding fields g
      by (simp only: update_pothole_def random_choice_def random_uniform_def random_random_def
          Let_def prod.case MPU6050Simulator.simps rng.simps c0 c1 if_True if_False simp_thms
          cong: let_weak_cong if_weak_cong)
qed

lemma update_simulation_normal:
  assumes "\<not> in_event now self"
  shows "update_simulation now now_sched g self =
     Inr (update_normal_riding (g\<lparr>pos := Suc (pos g)\<rparr>) (tick now g self))"
proof (cases self)
  case (fields a1 a2 a3 a4 a5 a6 a7 a8 a9 a10 a11 a12 a13)
  obtain dr p where g: "g = \<lparr>draws = dr, pos = p\<rparr>" by (cases g) simp
  have c: "(a10 \<noteq> Normal \<and> now \<ge> a11) = False"
    using assms fields by (simp add: in_event_def)
  show ?thesis
    unfolding fields g
    by (simp only: update_simulation_def tick_def random_uniform_def random_random_def
        Let_def prod.case MPU6050Simulator.simps rng.simps c if_True if_False simp_thms
        cong: let_weak_cong if_weak_cong)
qed

lemma update_simulation_fall:
  assumes "scenario self = Fall" and "now \<ge> scenario_start self"
    and "scenario_duration self \<noteq> 0"
  shows "update_simulation now now_sched g self =
     (if event_progress now self < 1
      then Inr (update_fall (event_progress now self) (g\<lparr>pos := Suc (pos g)\<rparr>)
                  ((tick now g self)\<lparr>scenario_progress := event_progress now self\<rparr>))
      else Inr (schedule_next_event now_sched
                  (snd (update_fall (event_progress now self) (g\<lparr>pos := Suc (pos g)\<rparr>)
                     ((tick now g self)\<lparr>scenario_progress := event_progress now self\<rparr>)))
                  ((fst (update_fall (event_progress now self) (g\<lparr>pos := Suc (pos g)\<rparr>)
                     ((tick now g self)\<lparr>scenario_progress := event_progress now self\<rparr>)))
                   \<lparr>scenario := Normal\<rparr>)))"
proof (cases self)
  case (fields a1 a2 a3 a4 a5 a6 a7 a8 a9 a10 a11 a12 a13)
  obtain dr p where g: "g = \<lparr>draws = dr, pos = p\<rparr>" by (cases g) simp
  have a10: "a10 = Fall" using assms fields by simp
  have c: "(Fall \<noteq> Normal \<and> now \<ge> a11) = True" "(a12 = 0) = False" "(Fall = Fall) = True"
    using assms fields by simp_all
  show ?thesis
  proof (cases "min 1 ((now - a11) / a12) < 1")
    case True
    then have p: "(min 1 ((now - a11) / a12) < 1) = True"
      "(min 1 ((now - a11) / a12) \<ge> 1) = False" by simp_all
    show ?thesis
      unfolding fields g a10
      by (simp only: update_simulation_def tick_def event_progress_def random_uniform_def
          random_random_def Let_def prod.case MPU6050Simulator.simps rng.simps c p
          if_True if_False simp_thms split_def prod.collapse fst_conv snd_conv
          cong: let_weak_cong if_weak_cong)
  next
    case False
    then have p: "(min 1 ((now - a11) / a12) < 1) = False"
      "(min 1 ((now - a11) / a12) \<ge> 1) = True" by simp_all
    show ?thesis
      unfolding fields g a10
      by (simp only: update_simulation_def tick_def event_progress_def random_uniform_def
          random_random_def Let_def prod.case MPU6050Simulator.simps rng.simps c p
          if_True if_False simp_thms split_def prod.collapse fst_conv snd_conv
          cong: let_weak_cong if_weak_cong)
  qed
qed

lemma update_simulation_pothole:
  assumes "scenario self = Pothole" and "now \<ge> scenario_start self"
    and "scenario_duration self \<noteq> 0"
  shows "update_simulation now now_sched g self =
     (if event_progress now self < 1
      then Inr (update_pothole (event_progress now self) (g\<lparr>pos := Suc (pos g)\<rparr>)
                  ((tick now g self)\<lparr>scenario_progress := event_progress now self\<rparr>))
      else Inr (schedule_next_event now_sched
                  (snd (update_pothole (event_progress now self) (g\<lparr>pos := Suc (pos g)\<rparr>)
                     ((tick now g self)\<lparr>scenario_progress := event_progress now self\<rparr>)))
                  ((fst (update_pothole (event_progress now self) (g\<lparr>pos := Suc (pos g)\<rparr>)
                     ((tick now g self)\<lparr>scenario_progress := event_progress now self\<rparr>)))
                   \<lparr>scenario := Normal\<rparr>)))"
proof (cases self)
  case (fields a1 a2 a3 a4 a5 a6 a7 a8 a9 a10 a11 a12 a13)
  obtain dr p where g: "g = \<lparr>draws = dr, pos = p\<rparr>" by (cases g) simp
  have a10: "a10 = Pothole" using assms fields by simp
  have c: "(Pothole \<noteq> Normal \<and> now \<ge> a11) = True" "(a12 = 0) = False"
    "(Pothole = Fall) = False" "(Pothole = Pothole) = True"
    using assms fields by simp_all
  show ?thesis
  proof (cases "min 1 ((now - a11) / a12) < 1")
    case True
    then have p: "(min 1 ((now - a11) / a12) < 1) = True"
      "(min 1 ((now - a11) / a12) \<ge> 1) = False" by simp_all
    show ?thesis
      unfolding fields g a10
      by (simp only: update_simulation_def tick_def event_progress_def random_uniform_def
          random_random_def Let_def prod.case MPU6050Simulator.simps rng.simps c p
          if_True if_False simp_thms split_def prod.collapse fst_conv snd_conv
          cong: let_weak_cong if_weak_cong)
  next
    case False
    then have p: "(min 1 ((now - a11) / a12) < 1) = False"
      "(min 1 ((now - a11) / a12) \<ge> 1) = True" by simp_all
    show ?thesis
      unfolding fields g a10
      by (simp only: update_simulation_def tick_def event_progress_def random_uniform_def
          random_random_def Let_def prod.case MPU6050Simulator.simps rng.simps c p
          if_True if_False simp_thms split_def prod.collapse fst_conv snd_conv
          cong: let_weak_cong if_weak_cong)
  qed
qed

lemma update_simulation_raises:
  assumes "in_event now self" and "scenario_duration self = 0"
  shows "update_simulation now now_sched g self = Inl ZeroDivisionError"
proof (cases self)
  case (fields a1 a2 a3 a4 a5 a6 a7 a8 a9 a10 a11 a12 a13)
  obtain dr p where g: "g = \<lparr>draws = dr, pos = p\<rparr>" by (cases g) simp
  have c: "(a10 \<noteq> Normal \<and> now \<ge> a11) = True" "(a12 = 0) = True"
    using assms fields by (simp_all add: in_event_def)
  show ?thesis
    unfolding fields g
    by (simp only: update_simulation_def random_uniform_def random_random_def
        Let_def prod.case MPU6050Simulator.simps rng.simps c if_True if_False simp_thms
        cong: let_weak_cong if_weak_cong)
qed
text \<open>What the phase updates and the scheduling leave alone.\<close>

lemma update_fall_cases:
  obtains "progress < 0.1"
  | "\<not> progress < 0.1" "progress < 0.3"
  | "\<not> progress < 0.1" "\<not> progress < 0.3" "progress < 0.4"
  | "\<not> progress < 0.1" "\<not> progress < 0.3" "\<not> progress < 0.4"
  by blast

lemma update_pothole_cases:
  obtains "progress < 0.3"
  | "\<not> progress < 0.3" "progress < 0.7"
  | "\<not> progress < 0.3" "\<not> progress < 0.7"
  by blast

lemma update_fall_frame:
  "scenario (fst (update_fall progress g self)) = scenario self"
  "scenario_start (fst (update_fall progress g self)) = scenario_start self"
  "scenario_duration (fst (update_fall progress g self)) = scenario_duration self"
  "scenario_progress (fst (update_fall progress g self)) = scenario_progress self"
  "mpu_last_update (fst (update_fall progress g self)) = mpu_last_update self"
  "mpu_temperature (fst (update_fall progress g self)) = mpu_temperature self"
  "init_time (fst (update_fall progress g self)) = init_time self"
  "draws (snd (update_fall progress g self)) = draws g"
  by (cases progress rule: update_fall_cases;
      simp add: update_fall_lean update_fall_free update_fall_impact update_fall_rest)+

lemma update_pothole_frame:
  "scenario (fst (update_pothole progress g self)) = scenario self"
  "scenario_start (fst (update_pothole progress g self)) = scenario_start self"
  "scenario_duration (fst (update_pothole progress g self)) = scenario_duration self"
  "scenario_progress (fst (update_pothole progress g self)) = scenario_progress self"
  "mpu_last_update (fst (update_pothole progress g self)) = mpu_last_update self"
  "mpu_temperature (fst (update_pothole progress g self)) = mpu_temperature self"
  "init_time (fst (update_pothole progress g self)) = init_time self"
  "draws (snd (update_pothole progress g self)) = draws g"
  by (cases progress rule: update_pothole_cases;
      simp add: update_pothole_drop update_pothole_rebound update_pothole_settle)+

lemma update_normal_riding_frame:
  "scenario (fst (update_normal_riding g self)) = scenario self"
  "scenario_start (fst (update_normal_riding g self)) = scenario_start self"
  "scenario_duration (fst (update_normal_riding g self)) = scenario_duration self"
  "scenario_progress (fst (update_normal_riding g self)) = scenario_progress self"
  "mpu_last_update (fst (update_normal_riding g self)) = mpu_last_update self"
  "mpu_temperature (fst (update_normal_riding g self)) = mpu_temperature self"
  "init_time (fst (update_normal_riding g self)) = init_time self"
  "draws (snd (update_normal_riding g self)) = draws g"
  by (simp_all add: update_normal_riding_closed)

lemma schedule_next_event_frame:
  "scenario_progress (fst (schedule_next_event now g self)) = scenario_progress self"
  "mpu_last_update (fst (schedule_next_event now g self)) = mpu_last_update self"
  "mpu_temperature (fst (schedule_next_event now g self)) = mpu_temperature self"
  "init_time (fst (schedule_next_event now g self)) = init_time self"
  "accel_x (fst (schedule_next_event now g self)) = accel_x self"
  "accel_y (fst (schedule_next_event now g self)) = accel_y self"
  "accel_z (fst (schedule_next_event now g self)) = accel_z self"
  "gyro_x (fst (schedule_next_event now g self)) = gyro_x self"
  "gyro_y (fst (schedule_next_event now g self)) = gyro_y self"
  "gyro_z (fst (schedule_next_event now g self)) = gyro_z self"
  "draws (snd (schedule_next_event now g self)) = draws g"
  "pos (snd (schedule_next_event now g self)) = Suc (Suc (pos g))"
  by (simp_all add: schedule_next_event_closed)

lemma schedule_next_event_scheduled:
  "event_scheduled (fst (schedule_next_event now g self))"
  "scenario_start (fst (schedule_next_event now g self)) = now + (20 + 40 * draws g (pos g))"
  by (simp_all add: schedule_next_event_closed event_scheduled_def)

lemma tick_fields:
  "mpu_last_update (tick now g self) = now"
  "scenario (tick now g self) = scenario self"
  "scenario_start (tick now g self) = scenario_start self"
  "scenario_duration (tick now g self) = scenario_duration self"
  "scenario_progress (tick now g self) = scenario_progress self"
  "init_time (tick now g self) = init_time self"
  "accel_x (tick now g self) = accel_x self"
  "accel_y (tick now g self) = accel_y self"
  "accel_z (tick now g self) = accel_z self"
  "gyro_x (tick now g self) = gyro_x self"
  "gyro_y (tick now g self) = gyro_y self"
  "gyro_z (tick now g self) = gyro_z self"
  by (simp_all add: tick_def)

section \<open>Inertial sensor simulator: one read\<close>

text \<open>The five ways in which \<open>update_simulation\<close> returns.\<close>

lemma update_simulation_cases [consumes 1, case_names normal fall fall_done pothole pothole_done]:
  assumes "update_simulation now now_sched g self = Inr (s', g')"
  obtains
    "\<not> in_event now self"
    "(s', g') = update_normal_riding (g\<lparr>pos := Suc (pos g)\<rparr>) (tick now g self)"
  | "in_event now self" "scenario self = Fall" "event_progress now self < 1"
    "(s', g') = update_fall (event_progress now self) (g\<lparr>pos := Suc (pos g)\<rparr>)
        ((tick now g self)\<lparr>scenario_progress := event_progress now self\<rparr>)"
  | "in_event now self" "scenario self = Fall" "\<not> event_progress now self < 1"
    "(s', g') = schedule_next_event now_sched
        (snd (update_fall (event_progress now self) (g\<lparr>pos := Suc (pos g)\<rparr>)
           ((tick now g self)\<lparr>scenario_progress := event_progress now self\<rparr>)))
        ((fst (update_fall (event_progress now self) (g\<lparr>pos := Suc (pos g)\<rparr>)
           ((tick now g self)\<lparr>scenario_progress := event_progress now self\<rparr>)))
         \<lparr>scenario := Normal\<rparr>)"
  | "in_event now self" "scenario self = Pothole" "event_progress now self < 1"
    "(s', g') = update_pothole (event_progress now self) (g\<lparr>pos := Suc (pos g)\<rparr>)
        ((tick now g self)\<lparr>scenario_progress := event_progress now self\<rparr>)"
  | "in_event now self" "scenario self = Pothole" "\<not> event_progress now self < 1"
    "(s', g') = schedule_next_event now_sched
        (snd (update_pothole (event_progress now self) (g\<lparr>pos := Suc (pos g)\<rparr>)
           ((tick now g self)\<lparr>scenario_progress := event_progress now self\<rparr>)))
        ((fst (update_pothole (event_progress now self) (g\<lparr>pos := Suc (pos g)\<rparr>)
           ((tick now g self)\<lparr>scenario_progress := event_progress now self\<rparr>)))
         \<lparr>scenario := Normal\<rparr>)"
proof (cases "in_event now self")
  case False
  from assms have "(s', g') = update_normal_riding (g\<lparr>pos := Suc (pos g)\<rparr>) (tick now g self)"
    by (simp only: update_simulation_normal [OF False] sum.inject)
  with False that(1) show ?thesis by blast
next
  case True
  then have start: "now \<ge> scenario_start self" and kind: "scenario self \<noteq> Normal"
    by (simp_all add: in_event_def)
  have dur: "scenario_duration self \<noteq> 0"
    using assms update_simulation_raises [OF True, of now_sched g] by auto
  show ?thesis
  proof (cases "scenario self")
    case Normal
    with kind show ?thesis by simp
  next
    case Fall
    show ?thesis
    proof (cases "event_progress now self < 1")
      case p: True
      from assms have "(s', g') = update_fall (event_progress now self) (g\<lparr>pos := Suc (pos g)\<rparr>)
        ((tick now g self)\<lparr>scenario_progress := event_progress now self\<rparr>)"
        by (simp only: update_simulation_fall [OF Fall start dur] p if_True sum.inject)
      with True Fall p that(2) show ?thesis by blast
    next
      case p: False
      from assms have "(s', g') = schedule_next_event now_sched
        (snd (update_fall (event_progress now self) (g\<lparr>pos := Suc (pos g)\<rparr>)
           ((tick now g self)\<lparr>scenario_progress := event_progress now self\<rparr>)))
        ((fst (update_fall (event_progress now self) (g\<lparr>pos := Suc (pos g)\<rparr>)
           ((tick now g self)\<lparr>scenario_progress := event_progress now self\<rparr>)))
         \<lparr>scenario := Normal\<rparr>)"
        by (simp only: update_simulation_fall [OF Fall start dur] p if_False sum.inject)
      with True Fall p that(3) show ?thesis by blast
    qed
  next
    case Pothole
    show ?thesis
    proof (cases "event_progress now self < 1")
      case p: True
      from assms have "(s', g') = update_pothole (event_progress now self)
        (g\<lparr>pos := Suc (pos g)\<rparr>)
        ((tick now g self)\<lparr>scenario_progress := event_progress now self\<rparr>)"
        by (simp only: update_simulation_pothole [OF Pothole start dur] p if_True sum.inject)
      with True Pothole p that(4) show ?thesis by blast
    next
      case p: False
      from assms have "(s', g') = schedule_next_event now_sched
        (snd (update_pothole (event_progress now self) (g\<lparr>pos := Suc (pos g)\<rparr>)
           ((tick now g self)\<lparr>scenario_progress := event_progress now self\<rparr>)))
        ((fst (update_pothole (event_progress now self) (g\<lparr>pos := Suc (pos g)\<rparr>)
           ((tick now g self)\<lparr>scenario_progress := event_progress now self\<rparr>)))
         \<lparr>scenario := Normal\<rparr>)"
        by (simp only: update_simulation_pothole [OF Pothole start dur] p if_False sum.inject)
      with True Pothole p that(5) show ?thesis by blast
    qed
  qed
qed
lemma pairD: "(a, b) = p \<Longrightarrow> a = fst p \<and> b = snd p"
  by auto

lemma update_simulation_last_update:
  assumes "update_simulation now now_sched g self = Inr (s', g')"
  shows "mpu_last_update s' = now"
  using assms
proof (cases rule: update_simulation_cases)
  case normal
  from pairD [OF normal(2)] show ?thesis
    by (simp add: update_normal_riding_frame tick_fields)
next
  case fall
  from pairD [OF fall(4)] show ?thesis by (simp add: update_fall_frame tick_fields)
next
  case fall_done
  from pairD [OF fall_done(4)] show ?thesis
    by (simp add: schedule_next_event_frame update_fall_frame tick_fields)
next
  case pothole
  from pairD [OF pothole(4)] show ?thesis by (simp add: update_pothole_frame tick_fields)
next
  case pothole_done
  from pairD [OF pothole_done(4)] show ?thesis
    by (simp add: schedule_next_event_frame update_pothole_frame tick_fields)
qed

lemma update_simulation_progress:
  assumes "update_simulation now now_sched g self = Inr (s', g')"
  shows "scenario_progress s' =
     (if in_event now self then event_progress now self else scenario_progress self)"
  using assms
proof (cases rule: update_simulation_cases)
  case normal
  from pairD [OF normal(2)] normal(1) show ?thesis
    by (simp add: update_normal_riding_frame tick_fields)
next
  case fall
  from pairD [OF fall(4)] fall(1) show ?thesis by (simp add: update_fall_frame)
next
  case fall_done
  from pairD [OF fall_done(4)] fall_done(1) show ?thesis
    by (simp add: schedule_next_event_frame update_fall_frame)
next
  case pothole
  from pairD [OF pothole(4)] pothole(1) show ?thesis by (simp add: update_pothole_frame)
next
  case pothole_done
  from pairD [OF pothole_done(4)] pothole_done(1) show ?thesis
    by (simp add: schedule_next_event_frame update_pothole_frame)
qed

lemma update_simulation_schedule_kept:
  assumes "update_simulation now now_sched g self = Inr (s', g')"
    and "\<not> in_event now self \<or> event_progress now self < 1"
  shows "scenario s' = scenario self \<and> scenario_start s' = scenario_start self
     \<and> scenario_duration s' = scenario_duration self"
  using assms(1)
proof (cases rule: update_simulation_cases)
  case normal
  from pairD [OF normal(2)] show ?thesis
    by (simp add: update_normal_riding_frame tick_fields)
next
  case fall
  from pairD [OF fall(4)] show ?thesis by (simp add: update_fall_frame tick_fields)
next
  case fall_done
  with assms(2) show ?thesis by simp
next
  case pothole
  from pairD [OF pothole(4)] show ?thesis by (simp add: update_pothole_frame tick_fields)
next
  case pothole_done
  with assms(2) show ?thesis by simp
qed

lemma update_simulation_scheduled:
  assumes "update_simulation now now_sched g self = Inr (s', g')" and "event_scheduled self"
  shows "event_scheduled s'"
  using assms(1)
proof (cases rule: update_simulation_cases)
  case normal
  then have "\<not> in_event now self \<or> event_progress now self < 1" by simp
  from update_simulation_schedule_kept [OF assms(1) this] assms(2) show ?thesis
    by (simp add: event_scheduled_def)
next
  case fall
  then have "\<not> in_event now self \<or> event_progress now self < 1" by simp
  from update_simulation_schedule_kept [OF assms(1) this] assms(2) show ?thesis
    by (simp add: event_scheduled_def)
next
  case fall_done
  from pairD [OF fall_done(4)] show ?thesis by (simp add: schedule_next_event_scheduled)
next
  case pothole
  then have "\<not> in_event now self \<or> event_progress now self < 1" by simp
  from update_simulation_schedule_kept [OF assms(1) this] assms(2) show ?thesis
    by (simp add: event_scheduled_def)
next
  case pothole_done
  from pairD [OF pothole_done(4)] show ?thesis by (simp add: schedule_next_event_scheduled)
qed

lemma update_simulation_returns:
  assumes "event_scheduled self"
  shows "\<exists>s' g'. update_simulation now now_sched g self = Inr (s', g')"
proof (cases "in_event now self")
  case False
  show ?thesis
    unfolding update_simulation_normal [OF False] by (metis surj_pair)
next
  case True
  then have start: "now \<ge> scenario_start self" by (simp add: in_event_def)
  from assms have dur: "scenario_duration self \<noteq> 0" by (auto simp: event_scheduled_def)
  from assms consider "scenario self = Fall" | "scenario self = Pothole"
    by (auto simp: event_scheduled_def)
  then show ?thesis
  proof cases
    case 1
    show ?thesis
      unfolding update_simulation_fall [OF 1 start dur]
      by (cases "event_progress now self < 1") (simp_all only: if_True if_False, (metis surj_pair)+)
  next
    case 2
    show ?thesis
      unfolding update_simulation_pothole [OF 2 start dur]
      by (cases "event_progress now self < 1") (simp_all only: if_True if_False, (metis surj_pair)+)
  qed
qed

lemma init_scheduled: "event_scheduled (fst (MPU6050Simulator_init now now_sched g))"
  by (simp add: MPU6050Simulator_init_def schedule_next_event_scheduled)

lemma event_progress_bounds:
  assumes "event_scheduled self" and "in_event now self"
  shows "0 \<le> event_progress now self \<and> event_progress now self \<le> 1"
proof -
  from assms(1) have "scenario_duration self > 0" by (auto simp: event_scheduled_def)
  moreover from assms(2) have "now - scenario_start self \<ge> 0" by (simp add: in_event_def)
  ultimately have "0 \<le> (now - scenario_start self) / scenario_duration self" by simp
  then show ?thesis by (simp add: event_progress_def)
qed

lemma event_progress_mono:
  assumes "event_scheduled self" and "now \<le> now2"
  shows "event_progress now self \<le> event_progress now2 self"
proof -
  from assms(1) have "scenario_duration self > 0" by (auto simp: event_scheduled_def)
  with assms(2) have "(now - scenario_start self) / scenario_duration self
      \<le> (now2 - scenario_start self) / scenario_duration self"
    by (simp add: divide_right_mono)
  then show ?thesis unfolding event_progress_def by (rule min.mono [OF order_refl])
qed
lemma update_simulation_draws:
  assumes "update_simulation now now_sched g self = Inr (s', g')"
  shows "draws g' = draws g"
  using assms
proof (cases rule: update_simulation_cases)
  case normal
  from pairD [OF normal(2)] show ?thesis by (simp add: update_normal_riding_frame)
next
  case fall
  from pairD [OF fall(4)] show ?thesis by (simp add: update_fall_frame)
next
  case fall_done
  from pairD [OF fall_done(4)] show ?thesis
    by (simp add: schedule_next_event_frame update_fall_frame)
next
  case pothole
  from pairD [OF pothole(4)] show ?thesis by (simp add: update_pothole_frame)
next
  case pothole_done
  from pairD [OF pothole_done(4)] show ?thesis
    by (simp add: schedule_next_event_frame update_pothole_frame)
qed

lemma update_simulation_rescheduled:
  assumes "update_simulation now now_sched g self = Inr (s', g')"
    and "in_event now self" and "\<not> event_progress now self < 1"
    and "\<forall>i. 0 \<le> draws g i"
  shows "now_sched + 20 \<le> scenario_start s'"
  using assms(1)
proof (cases rule: update_simulation_cases)
  case normal
  with assms(2) show ?thesis by simp
next
  case fall
  with assms(3) show ?thesis by simp
next
  case fall_done
  from pairD [OF fall_done(4)] assms(4) show ?thesis
    by (simp add: schedule_next_event_scheduled update_fall_frame)
next
  case pothole
  with assms(3) show ?thesis by simp
next
  case pothole_done
  from pairD [OF pothole_done(4)] assms(4) show ?thesis
    by (simp add: schedule_next_event_scheduled update_pothole_frame)
qed

section \<open>Inertial sensor simulator: the concrete run\<close>

lemma rng_mpu_fields:
  "pos rng_mpu = 0" "draws rng_mpu = (\<lambda>i. if i = 1 then 0 else 3 / 4)"
  by (simp_all add: rng_mpu_def)

lemma mpu_a0_fields:
  "scenario mpu_a0 = Fall" "scenario_start mpu_a0 = 50" "scenario_duration mpu_a0 = 2"
  "scenario_progress mpu_a0 = 0" "pos rng_a0 = 2" "draws rng_a0 = draws rng_mpu"
  "accel_y mpu_a0 = 0" "gyro_y mpu_a0 = 0" "gyro_z mpu_a0 = 0"
  by (simp_all add: mpu_a0_def rng_a0_def MPU6050Simulator_init_def
      schedule_next_event_closed rng_mpu_fields)

lemma mpu_a0_scheduled: "event_scheduled mpu_a0"
  unfolding mpu_a0_def by (rule init_scheduled)

lemma projr_step:
  assumes "event_scheduled self"
  shows "update_simulation now now_sched g self =
     Inr (fst (projr (update_simulation now now_sched g self)),
          snd (projr (update_simulation now now_sched g self)))"
  using update_simulation_returns [OF assms, of now now_sched g] by auto

lemma step_a1: "update_simulation 49 49 rng_a0 mpu_a0 = Inr (mpu_a1, rng_a1)"
  unfolding mpu_a1_def rng_a1_def by (rule projr_step [OF mpu_a0_scheduled])

lemma not_in_event_a0: "\<not> in_event 49 mpu_a0"
  by (simp add: in_event_def mpu_a0_fields)

lemma mpu_a1_fields:
  "scenario mpu_a1 = Fall" "scenario_start mpu_a1 = 50" "scenario_duration mpu_a1 = 2"
  "scenario_progress mpu_a1 = 0" "draws rng_a1 = draws rng_mpu" "event_scheduled mpu_a1"
  using update_simulation_schedule_kept [OF step_a1] update_simulation_progress [OF step_a1]
    update_simulation_draws [OF step_a1] update_simulation_scheduled [OF step_a1]
    not_in_event_a0 mpu_a0_scheduled
  by (simp_all add: mpu_a0_fields)

lemma mpu_a1_motion:
  "accel_y mpu_a1 = 1 / 4" "gyro_y mpu_a1 = 1 / 10" "gyro_z mpu_a1 = 1 / 20"
  unfolding mpu_a1_def update_simulation_normal [OF not_in_event_a0]
  by (simp_all add: update_normal_riding_closed mpu_a0_fields rng_mpu_fields)

lemma in_event_a1: "in_event (101 / 2) mpu_a1" "event_progress (101 / 2) mpu_a1 = 1 / 4"
  by (simp_all add: in_event_def event_progress_def mpu_a1_fields)

lemma step_a2: "update_simulation 50.5 50.5 rng_a1 mpu_a1 = Inr (mpu_a2, rng_a2)"
  unfolding mpu_a2_def rng_a2_def by (rule projr_step) (rule mpu_a1_fields)

lemma mpu_a2_fields:
  "scenario mpu_a2 = Fall" "scenario_start mpu_a2 = 50" "scenario_duration mpu_a2 = 2"
  "scenario_progress mpu_a2 = 1 / 4" "draws rng_a2 = draws rng_mpu" "event_scheduled mpu_a2"
  using update_simulation_schedule_kept [OF step_a2] update_simulation_progress [OF step_a2]
    update_simulation_draws [OF step_a2] update_simulation_scheduled [OF step_a2]
    in_event_a1 mpu_a1_fields
  by simp_all

lemma in_event_a2: "in_event 52 mpu_a2" "event_progress 52 mpu_a2 = 1"
  by (simp_all add: in_event_def event_progress_def mpu_a2_fields)

lemma step_a3: "update_simulation 52 52 rng_a2 mpu_a2 = Inr (mpu_a3, rng_a3)"
  unfolding mpu_a3_def rng_a3_def by (rule projr_step) (rule mpu_a2_fields)

lemma mpu_a3_fields:
  "scenario_progress mpu_a3 = 1" "72 \<le> scenario_start mpu_a3" "event_scheduled mpu_a3"
  using update_simulation_progress [OF step_a3] update_simulation_scheduled [OF step_a3]
    update_simulation_rescheduled [OF step_a3] in_event_a2 mpu_a2_fields
  by (simp_all add: rng_mpu_fields)

lemma not_in_event_a3: "\<not> in_event 60 mpu_a3"
  using mpu_a3_fields(2) by (simp add: in_event_def)

lemma step_a4:
  "update_simulation 60 60 rng_a3 mpu_a3 =
     Inr (mpu_a4, snd (projr (update_simulation 60 60 rng_a3 mpu_a3)))"
  unfolding mpu_a4_def by (rule projr_step) (rule mpu_a3_fields)

lemma mpu_a4_fields: "scenario_progress mpu_a4 = 1"
  using update_simulation_progress [OF step_a4] not_in_event_a3 mpu_a3_fields by simp
section \<open>Inertial sensor simulator: scenario progress\<close>

text \<open>
  C5 as stated fails in its second half. The simulator is constructed at time 0 with a
  fall scheduled at 50 s. The read at 49 s is normal riding; the next read, at 50.5 s, is
  the first inside the event, and it stores the progress \<open>1 / 4\<close>, not 0. The read at
  52 s completes the event and stores 1; the read at 60 s is normal riding again and
  the stored progress is still 1.
\<close>

theorem scenario_progress_counterexample:
  "\<not> in_event 49 mpu_a0
   \<and> update_simulation 49 49 rng_a0 mpu_a0 = Inr (mpu_a1, rng_a1)
   \<and> in_event 50.5 mpu_a1
   \<and> update_simulation 50.5 50.5 rng_a1 mpu_a1 = Inr (mpu_a2, rng_a2)
   \<and> scenario_progress mpu_a2 = 1 / 4
   \<and> scenario_progress mpu_a2 \<noteq> 0
   \<and> update_simulation 52 52 rng_a2 mpu_a2 = Inr (mpu_a3, rng_a3)
   \<and> scenario_progress mpu_a3 = 1
   \<and> \<not> in_event 60 mpu_a3
   \<and> scenario_progress mpu_a4 = 1
   \<and> scenario_progress mpu_a4 \<noteq> 0"
  using not_in_event_a0 step_a1 in_event_a1(1) step_a2 step_a3 not_in_event_a3
  by (simp add: mpu_a2_fields mpu_a3_fields mpu_a4_fields)

text \<open>
  C5, amended. The constructor schedules an event, and every read of a simulator with
  a scheduled event returns and leaves an event scheduled. A read inside an event
  stores the progress \<open>min 1 ((now - start) / duration)\<close>, which lies in \<open>[0, 1]\<close>; a read
  outside an event leaves the stored progress unchanged. Within a single event, when
  the clock does not go backwards, the progress stored by the next read is not smaller
  than the one stored by this read.
\<close>

theorem scenario_progress_stored:
  "event_scheduled (fst (MPU6050Simulator_init t0 t1 g0))
   \<and> (event_scheduled self \<longrightarrow>
        (\<exists>s' g'. update_simulation now now_sched g self = Inr (s', g')
           \<and> event_scheduled s'
           \<and> (in_event now self \<longrightarrow>
                scenario_progress s' =
                  min 1 ((now - scenario_start self) / scenario_duration self)
                \<and> 0 \<le> scenario_progress s' \<and> scenario_progress s' \<le> 1)
           \<and> (\<not> in_event now self \<longrightarrow> scenario_progress s' = scenario_progress self)
           \<and> (in_event now self \<and> event_progress now self < 1 \<and> now \<le> now2 \<longrightarrow>
                in_event now2 s'
                \<and> (\<exists>s'' g''. update_simulation now2 now_sched2 g' s' = Inr (s'', g'')
                      \<and> scenario_progress s' \<le> scenario_progress s''))))"
proof (intro conjI impI)
  show "event_scheduled (fst (MPU6050Simulator_init t0 t1 g0))" by (rule init_scheduled)
next
  assume sched: "event_scheduled self"
  obtain s' g' where step: "update_simulation now now_sched g self = Inr (s', g')"
    using update_simulation_returns [OF sched] by blast
  have sched': "event_scheduled s'" by (rule update_simulation_scheduled [OF step sched])
  have inside: "scenario_progress s' = min 1 ((now - scenario_start self) / scenario_duration self)
      \<and> 0 \<le> scenario_progress s' \<and> scenario_progress s' \<le> 1" if "in_event now self"
    using that update_simulation_progress [OF step] event_progress_bounds [OF sched that]
    by (simp add: event_progress_def)
  have outside: "scenario_progress s' = scenario_progress self" if "\<not> in_event now self"
    using that update_simulation_progress [OF step] by simp
  have next_read: "in_event now2 s'
      \<and> (\<exists>s'' g''. update_simulation now2 now_sched2 g' s' = Inr (s'', g'')
            \<and> scenario_progress s' \<le> scenario_progress s'')"
    if run: "in_event now self \<and> event_progress now self < 1 \<and> now \<le> now2"
  proof -
    from run have kept: "scenario s' = scenario self \<and> scenario_start s' = scenario_start self
        \<and> scenario_duration s' = scenario_duration self"
      using update_simulation_schedule_kept [OF step] by blast
    with run have in2: "in_event now2 s'" by (simp add: in_event_def)
    obtain s'' g'' where step2: "update_simulation now2 now_sched2 g' s' = Inr (s'', g'')"
      using update_simulation_returns [OF sched'] by blast
    have "scenario_progress s' = event_progress now self"
      using run update_simulation_progress [OF step] by simp
    also have "\<dots> \<le> event_progress now2 self"
      using run by (simp add: event_progress_mono [OF sched])
    also have "\<dots> = event_progress now2 s'" using kept by (simp add: event_progress_def)
    also have "\<dots> = scenario_progress s''"
      using in2 update_simulation_progress [OF step2] by simp
    finally show ?thesis using in2 step2 by blast
  qed
  show "\<exists>s' g'. update_simulation now now_sched g self = Inr (s', g')
           \<and> event_scheduled s'
           \<and> (in_event now self \<longrightarrow>
                scenario_progress s' =
                  min 1 ((now - scenario_start self) / scenario_duration self)
                \<and> 0 \<le> scenario_progress s' \<and> scenario_progress s' \<le> 1)
           \<and> (\<not> in_event now self \<longrightarrow> scenario_progress s' = scenario_progress self)
           \<and> (in_event now self \<and> event_progress now self < 1 \<and> now \<le> now2 \<longrightarrow>
                in_event now2 s'
                \<and> (\<exists>s'' g''. update_simulation now2 now_sched2 g' s' = Inr (s'', g'')
                      \<and> scenario_progress s' \<le> scenario_progress s''))"
    using step sched' inside outside next_read by blast
qed

theorem scenario_progress_stored_witness:
  "event_scheduled mpu_a1
   \<and> in_event 50.5 mpu_a1 \<and> event_progress 50.5 mpu_a1 < 1 \<and> (50.5 :: real) \<le> 52
   \<and> update_simulation 50.5 50.5 rng_a1 mpu_a1 = Inr (mpu_a2, rng_a2)
   \<and> scenario_progress mpu_a2 = 1 / 4
   \<and> in_event 52 mpu_a2
   \<and> update_simulation 52 52 rng_a2 mpu_a2 = Inr (mpu_a3, rng_a3)
   \<and> scenario_progress mpu_a2 \<le> scenario_progress mpu_a3
   \<and> event_scheduled mpu_a0 \<and> \<not> in_event 49 mpu_a0
   \<and> scenario_progress mpu_a1 = scenario_progress mpu_a0"
  using scenario_progress_stored [where self = mpu_a1 and now = "50.5" and now_sched = "50.5"
      and g = rng_a1 and ?now2.0 = 52 and ?now_sched2.0 = 52 and ?t0.0 = 0 and ?t1.0 = 0
      and g0 = rng_mpu]
    scenario_progress_stored [where self = mpu_a0 and now = 49 and now_sched = 49
      and g = rng_a0 and ?now2.0 = 49 and ?now_sched2.0 = 49 and ?t0.0 = 0 and ?t1.0 = 0
      and g0 = rng_mpu]
    step_a2 step_a3 in_event_a1 in_event_a2 not_in_event_a0 mpu_a0_scheduled
  by (simp add: mpu_a0_fields mpu_a1_fields mpu_a2_fields mpu_a3_fields)

section \<open>Inertial sensor simulator: the accessors\<close>

lemma acceleration_Inr:
  assumes "acceleration now now_sched g self = Inr (v, s', g')"
  shows "update_simulation now now_sched g self = Inr (s', g')
     \<and> v = (accel_x s', accel_y s', accel_z s')"
  using assms unfolding acceleration_def by (auto split: sum.splits)

lemma passive_read:
  assumes "a = Gyro \<or> a = Temperature"
  shows "read_property a g self =
     Inr (if a = Gyro then Vec (gyro_x self) (gyro_y self) (gyro_z self)
          else Scalar (mpu_temperature self), self, g)"
  using assms by (auto simp: gyro_def temperature_property_def)

lemma passive_reads_run:
  assumes "\<forall>a\<in>set as. a = Gyro \<or> a = Temperature"
  shows "run_reads as g self =
     Inr (map (\<lambda>a. if a = Gyro then Vec (gyro_x self) (gyro_y self) (gyro_z self)
                    else Scalar (mpu_temperature self)) as, self, g)"
  using assms
proof (induction as)
  case Nil
  then show ?case by simp
next
  case (Cons a as)
  then have a: "a = Gyro \<or> a = Temperature" and rest: "\<forall>a\<in>set as. a = Gyro \<or> a = Temperature"
    by simp_all
  show ?case
    by (simp only: run_reads.simps passive_read [OF a] Cons.IH [OF rest]
        sum.case prod.case list.map)
qed

text \<open>
  C9. Reading the rotation rate or the temperature returns the stored fields and leaves
  the simulator as it was. A read of the acceleration that returns stores the clock
  reading as the time of the last update and returns the stored acceleration; any
  sequence of rotation-rate and temperature reads after it leaves the simulator and
  the generator unchanged and returns, read by read, the values that this acceleration
  read stored.
\<close>

theorem passive_accessors:
  "gyro self = ((gyro_x self, gyro_y self, gyro_z self), self)
   \<and> temperature_property self = (mpu_temperature self, self)
   \<and> (acceleration now now_sched g self = Inr (v, s', g') \<longrightarrow>
        update_simulation now now_sched g self = Inr (s', g')
        \<and> mpu_last_update s' = now
        \<and> v = (accel_x s', accel_y s', accel_z s')
        \<and> ((\<forall>a\<in>set as. a = Gyro \<or> a = Temperature) \<longrightarrow>
             run_reads as g' s' =
               Inr (map (\<lambda>a. if a = Gyro then Vec (gyro_x s') (gyro_y s') (gyro_z s')
                              else Scalar (mpu_temperature s')) as, s', g')))"
  using acceleration_Inr [of now now_sched g self v s' g']
    update_simulation_last_update [of now now_sched g self s' g']
    passive_reads_run [of as g' s']
  by (simp add: gyro_def temperature_property_def)

theorem passive_accessors_witness:
  "acceleration 49 49 rng_a0 mpu_a0 = Inr ((accel_x mpu_a1, 1 / 4, accel_z mpu_a1), mpu_a1, rng_a1)
   \<and> mpu_last_update mpu_a1 = 49
   \<and> list_all (\<lambda>a. a = Gyro \<or> a = Temperature) [Gyro, Temperature, Gyro]
   \<and> run_reads [Gyro, Temperature, Gyro] rng_a1 mpu_a1 =
       Inr ([Vec (gyro_x mpu_a1) (1 / 10) (1 / 20), Scalar (mpu_temperature mpu_a1),
             Vec (gyro_x mpu_a1) (1 / 10) (1 / 20)], mpu_a1, rng_a1)"
  using passive_accessors [where now = 49 and now_sched = 49 and g = rng_a0 and self = mpu_a0
      and v = "(accel_x mpu_a1, 1 / 4, accel_z mpu_a1)" and s' = mpu_a1 and g' = rng_a1
      and as = "[Gyro, Temperature, Gyro]"]
  by (simp add: acceleration_def step_a1 mpu_a1_motion)

section \<open>Inertial sensor simulator: the initial lean of a fall\<close>

text \<open>
  C10. For a progress below 0.1 the fall update writes \<open>accel_x\<close>, \<open>accel_z\<close> and
  \<open>gyro_x\<close> and nothing else, so \<open>accel_y\<close>, \<open>gyro_y\<close> and \<open>gyro_z\<close> keep the values
  they had; a read of a scheduled fall whose progress is below 0.1 returns a simulator
  with these three fields as the previous read left them.
\<close>

theorem fall_lean_frame:
  "(progress < 0.1 \<longrightarrow>
      update_fall progress g self =
        (self\<lparr>accel_x := 9.8 * sin (progress * 10 * pi / 180),
              accel_z := 9.8 * cos (progress * 10 * pi / 180),
              gyro_x := 0.5 + (1 - 0.5) * draws g (pos g)\<rparr>,
         g\<lparr>pos := Suc (pos g)\<rparr>)
      \<and> accel_y (fst (update_fall progress g self)) = accel_y self
      \<and> gyro_y (fst (update_fall progress g self)) = gyro_y self
      \<and> gyro_z (fst (update_fall progress g self)) = gyro_z self)
   \<and> (scenario self = Fall \<and> scenario_duration self = 2 \<and> scenario_start self \<le> now
        \<and> (now - scenario_start self) / 2 < 0.1 \<longrightarrow>
        (\<exists>s' g'. update_simulation now now_sched g self = Inr (s', g')
           \<and> accel_y s' = accel_y self \<and> gyro_y s' = gyro_y self
           \<and> gyro_z s' = gyro_z self))"
proof (intro conjI impI)
  assume lean: "progress < 0.1"
  show "update_fall progress g self =
        (self\<lparr>accel_x := 9.8 * sin (progress * 10 * pi / 180),
              accel_z := 9.8 * cos (progress * 10 * pi / 180),
              gyro_x := 0.5 + (1 - 0.5) * draws g (pos g)\<rparr>,
         g\<lparr>pos := Suc (pos g)\<rparr>)"
    by (rule update_fall_lean [OF lean])
  show "accel_y (fst (update_fall progress g self)) = accel_y self"
    and "gyro_y (fst (update_fall progress g self)) = gyro_y self"
    and "gyro_z (fst (update_fall progress g self)) = gyro_z self"
    by (simp_all add: update_fall_lean [OF lean])
next
  assume h: "scenario self = Fall \<and> scenario_duration self = 2 \<and> scenario_start self \<le> now
        \<and> (now - scenario_start self) / 2 < 0.1"
  then have P: "event_progress now self = (now - scenario_start self) / 2"
    by (simp add: event_progress_def)
  with h have lean: "event_progress now self < 0.1" and run: "event_progress now self < 1"
    by simp_all
  from h have dur: "scenario_duration self \<noteq> 0" by simp
  have "update_simulation now now_sched g self =
      Inr (update_fall (event_progress now self) (g\<lparr>pos := Suc (pos g)\<rparr>)
             ((tick now g self)\<lparr>scenario_progress := event_progress now self\<rparr>))"
    using h run by (simp only: update_simulation_fall [OF _ _ dur] if_True)
  then show "\<exists>s' g'. update_simulation now now_sched g self = Inr (s', g')
           \<and> accel_y s' = accel_y self \<and> gyro_y s' = gyro_y self
           \<and> gyro_z s' = gyro_z self"
    by (simp add: update_fall_lean [OF lean] tick_fields)
qed

theorem fall_lean_frame_witness:
  "scenario mpu_a1 = Fall \<and> scenario_duration mpu_a1 = 2 \<and> scenario_start mpu_a1 \<le> 50.1
   \<and> (50.1 - scenario_start mpu_a1) / 2 < 0.1
   \<and> accel_y mpu_a1 = 1 / 4 \<and> gyro_y mpu_a1 = 1 / 10 \<and> gyro_z mpu_a1 = 1 / 20
   \<and> (\<exists>s' g'. update_simulation 50.1 50.1 rng_a1 mpu_a1 = Inr (s', g')
         \<and> accel_y s' = 1 / 4 \<and> gyro_y s' = 1 / 10 \<and> gyro_z s' = 1 / 20)
   \<and> accel_y (fst (update_fall 0.05 rng_a1 mpu_a1)) = 1 / 4"
  using fall_lean_frame [where self = mpu_a1 and now = "50.1" and now_sched = "50.1"
      and g = rng_a1 and progress = "0.05"]
  by (simp add: mpu_a1_fields mpu_a1_motion)

section \<open>The draws an operation depends on\<close>

text \<open>
  Two generators that stand at the same position and agree on every draw below \<open>n\<close>
  are indistinguishable to an operation that ends at a position not above \<open>n\<close>.
\<close>

lemma same_draws_refl: "same_draws n g g"
  by (simp add: same_draws_def)

lemma same_draws_pos: "same_draws n g1 g2 \<Longrightarrow> pos g2 = pos g1"
  by (simp add: same_draws_def)

lemma same_draws_advance:
  "same_draws n g1 g2 \<Longrightarrow> same_draws n (g1\<lparr>pos := Suc (pos g1)\<rparr>) (g2\<lparr>pos := Suc (pos g2)\<rparr>)"
  by (simp add: same_draws_def)

lemma schedule_next_event_local:
  assumes "same_draws n g1 g2" and "pos (snd (schedule_next_event now g1 self)) \<le> n"
  shows "fst (schedule_next_event now g2 self) = fst (schedule_next_event now g1 self)
     \<and> same_draws n (snd (schedule_next_event now g1 self))
          (snd (schedule_next_event now g2 self))"
  using assms by (simp add: schedule_next_event_closed same_draws_def)

lemma update_normal_riding_local:
  assumes "same_draws n g1 g2" and "pos (snd (update_normal_riding g1 self)) \<le> n"
  shows "fst (update_normal_riding g2 self) = fst (update_normal_riding g1 self)
     \<and> same_draws n (snd (update_normal_riding g1 self)) (snd (update_normal_riding g2 self))"
  using assms by (simp add: update_normal_riding_closed same_draws_def split: if_splits)

lemma update_fall_local:
  assumes "same_draws n g1 g2" and "pos (snd (update_fall progress g1 self)) \<le> n"
  shows "fst (update_fall progress g2 self) = fst (update_fall progress g1 self)
     \<and> same_draws n (snd (update_fall progress g1 self)) (snd (update_fall progress g2 self))"
  using assms
  by (cases progress rule: update_fall_cases)
     (simp_all add: update_fall_lean update_fall_free update_fall_impact update_fall_rest
        same_draws_def)

lemma update_pothole_local:
  assumes "same_draws n g1 g2" and "pos (snd (update_pothole progress g1 self)) \<le> n"
  shows "fst (update_pothole progress g2 self) = fst (update_pothole progress g1 self)
     \<and> same_draws n (snd (update_pothole progress g1 self))
          (snd (update_pothole progress g2 self))"
  using assms
  by (cases progress rule: update_pothole_cases)
     (simp_all add: update_pothole_drop update_pothole_rebound update_pothole_settle
        same_draws_def)

lemma leaf_pos:
  "pos g < pos (snd (update_normal_riding g self))"
  "pos g < pos (snd (update_fall progress g self))"
  "pos g < pos (snd (update_pothole progress g self))"
  "pos g < pos (snd (schedule_next_event now g self))"
proof -
  show "pos g < pos (snd (update_normal_riding g self))"
    by (simp add: update_normal_riding_closed)
  show "pos g < pos (snd (update_fall progress g self))"
    by (cases progress rule: update_fall_cases)
       (simp_all add: update_fall_lean update_fall_free update_fall_impact update_fall_rest)
  show "pos g < pos (snd (update_pothole progress g self))"
    by (cases progress rule: update_pothole_cases)
       (simp_all add: update_pothole_drop update_pothole_rebound update_pothole_settle)
  show "pos g < pos (snd (schedule_next_event now g self))"
    by (simp add: schedule_next_event_closed)
qed

lemma tick_local:
  assumes "same_draws n g1 g2" and "pos g1 < n"
  shows "tick now g2 self = tick now g1 self"
  using assms by (simp add: tick_def same_draws_def)
lemma phase_local:
  fixes upd :: "rng \<Rightarrow> MPU6050Simulator \<Rightarrow> MPU6050Simulator \<times> rng"
  assumes sd: "same_draws n g1 g2"
    and loc: "\<And>h1 h2 s. same_draws n h1 h2 \<Longrightarrow> pos (snd (upd h1 s)) \<le> n \<Longrightarrow>
      fst (upd h2 s) = fst (upd h1 s) \<and> same_draws n (snd (upd h1 s)) (snd (upd h2 s))"
    and grow: "\<And>h s. pos h < pos (snd (upd h s))"
    and le: "pos (snd (upd (g1\<lparr>pos := Suc (pos g1)\<rparr>) (f (tick now g1 self)))) \<le> n"
  shows "fst (upd (g2\<lparr>pos := Suc (pos g2)\<rparr>) (f (tick now g2 self))) =
       fst (upd (g1\<lparr>pos := Suc (pos g1)\<rparr>) (f (tick now g1 self)))
     \<and> same_draws n (snd (upd (g1\<lparr>pos := Suc (pos g1)\<rparr>) (f (tick now g1 self))))
          (snd (upd (g2\<lparr>pos := Suc (pos g2)\<rparr>) (f (tick now g2 self))))"
proof -
  have "pos (g1\<lparr>pos := Suc (pos g1)\<rparr>)
      < pos (snd (upd (g1\<lparr>pos := Suc (pos g1)\<rparr>) (f (tick now g1 self))))"
    by (rule grow)
  with le have "pos g1 < n" by simp
  then have t: "tick now g2 self = tick now g1 self" by (rule tick_local [OF sd])
  show ?thesis
    unfolding t by (rule loc [OF same_draws_advance [OF sd] le])
qed

lemma phase_then_schedule_local:
  fixes upd :: "rng \<Rightarrow> MPU6050Simulator \<Rightarrow> MPU6050Simulator \<times> rng"
  assumes sd: "same_draws n g1 g2"
    and loc: "\<And>h1 h2 s. same_draws n h1 h2 \<Longrightarrow> pos (snd (upd h1 s)) \<le> n \<Longrightarrow>
      fst (upd h2 s) = fst (upd h1 s) \<and> same_draws n (snd (upd h1 s)) (snd (upd h2 s))"
    and grow: "\<And>h s. pos h < pos (snd (upd h s))"
    and le: "pos (snd (schedule_next_event now_sched
        (snd (upd (g1\<lparr>pos := Suc (pos g1)\<rparr>) (f (tick now g1 self))))
        ((fst (upd (g1\<lparr>pos := Suc (pos g1)\<rparr>) (f (tick now g1 self))))
         \<lparr>scenario := Normal\<rparr>))) \<le> n"
  shows "fst (schedule_next_event now_sched
        (snd (upd (g2\<lparr>pos := Suc (pos g2)\<rparr>) (f (tick now g2 self))))
        ((fst (upd (g2\<lparr>pos := Suc (pos g2)\<rparr>) (f (tick now g2 self))))
         \<lparr>scenario := Normal\<rparr>)) =
      fst (schedule_next_event now_sched
        (snd (upd (g1\<lparr>pos := Suc (pos g1)\<rparr>) (f (tick now g1 self))))
        ((fst (upd (g1\<lparr>pos := Suc (pos g1)\<rparr>) (f (tick now g1 self))))
         \<lparr>scenario := Normal\<rparr>))
     \<and> same_draws n
       (snd (schedule_next_event now_sched
        (snd (upd (g1\<lparr>pos := Suc (pos g1)\<rparr>) (f (tick now g1 self))))
        ((fst (upd (g1\<lparr>pos := Suc (pos g1)\<rparr>) (f (tick now g1 self))))
         \<lparr>scenario := Normal\<rparr>)))
       (snd (schedule_next_event now_sched
        (snd (upd (g2\<lparr>pos := Suc (pos g2)\<rparr>) (f (tick now g2 self))))
        ((fst (upd (g2\<lparr>pos := Suc (pos g2)\<rparr>) (f (tick now g2 self))))
         \<lparr>scenario := Normal\<rparr>)))"
proof -
  have "pos (snd (upd (g1\<lparr>pos := Suc (pos g1)\<rparr>) (f (tick now g1 self)))) \<le> n"
    using le by (simp add: schedule_next_event_frame)
  from phase_local [of n g1 g2 upd f now self, OF sd loc grow this]
  have same: "fst (upd (g2\<lparr>pos := Suc (pos g2)\<rparr>) (f (tick now g2 self))) =
       fst (upd (g1\<lparr>pos := Suc (pos g1)\<rparr>) (f (tick now g1 self)))"
    and sd': "same_draws n (snd (upd (g1\<lparr>pos := Suc (pos g1)\<rparr>) (f (tick now g1 self))))
          (snd (upd (g2\<lparr>pos := Suc (pos g2)\<rparr>) (f (tick now g2 self))))"
    by simp_all
  show ?thesis
    unfolding same by (rule schedule_next_event_local [OF sd' le])
qed

lemma update_simulation_duration:
  assumes "update_simulation now now_sched g self = Inr r" and "in_event now self"
  shows "scenario_duration self \<noteq> 0"
  using assms update_simulation_raises [OF assms(2), of now_sched g] by auto

lemma update_simulation_local:
  assumes sd: "same_draws n g1 g2"
    and step: "update_simulation now now_sched g1 self = Inr (s', g1')"
    and le: "pos g1' \<le> n"
  shows "\<exists>g2'. update_simulation now now_sched g2 self = Inr (s', g2') \<and> same_draws n g1' g2'"
  using step
proof (cases rule: update_simulation_cases)
  case normal
  note r = pairD [OF normal(2)]
  from le r have le': "pos (snd (update_normal_riding (g1\<lparr>pos := Suc (pos g1)\<rparr>)
      (id (tick now g1 self)))) \<le> n" by simp
  from phase_local [of n g1 g2 update_normal_riding id now self,
      OF sd update_normal_riding_local leaf_pos(1) le'] r
  show ?thesis by (simp add: update_simulation_normal [OF normal(1)] prod_eq_iff)
next
  case fall
  note r = pairD [OF fall(4)]
  from fall(1) have start: "now \<ge> scenario_start self" by (simp add: in_event_def)
  note dur = update_simulation_duration [OF step fall(1)]
  from le r have le': "pos (snd (update_fall (event_progress now self)
      (g1\<lparr>pos := Suc (pos g1)\<rparr>)
      ((\<lambda>s. s\<lparr>scenario_progress := event_progress now self\<rparr>) (tick now g1 self)))) \<le> n"
    by simp
  from phase_local [of n g1 g2 "update_fall (event_progress now self)"
      "\<lambda>s. s\<lparr>scenario_progress := event_progress now self\<rparr>" now self,
      OF sd update_fall_local leaf_pos(2) le'] r fall(3)
  show ?thesis by (simp add: update_simulation_fall [OF fall(2) start dur] prod_eq_iff)
next
  case fall_done
  note r = pairD [OF fall_done(4)]
  from fall_done(1) have start: "now \<ge> scenario_start self" by (simp add: in_event_def)
  note dur = update_simulation_duration [OF step fall_done(1)]
  from le r have le': "pos (snd (schedule_next_event now_sched
      (snd (update_fall (event_progress now self) (g1\<lparr>pos := Suc (pos g1)\<rparr>)
        ((\<lambda>s. s\<lparr>scenario_progress := event_progress now self\<rparr>) (tick now g1 self))))
      ((fst (update_fall (event_progress now self) (g1\<lparr>pos := Suc (pos g1)\<rparr>)
        ((\<lambda>s. s\<lparr>scenario_progress := event_progress now self\<rparr>) (tick now g1 self))))
       \<lparr>scenario := Normal\<rparr>))) \<le> n"
    by simp
  from phase_then_schedule_local [of n g1 g2 "update_fall (event_progress now self)"
      now_sched "\<lambda>s. s\<lparr>scenario_progress := event_progress now self\<rparr>" now self,
      OF sd update_fall_local leaf_pos(2) le'] r fall_done(3)
  show ?thesis by (simp add: update_simulation_fall [OF fall_done(2) start dur] prod_eq_iff)
next
  case pothole
  note r = pairD [OF pothole(4)]
  from pothole(1) have start: "now \<ge> scenario_start self" by (simp add: in_event_def)
  note dur = update_simulation_duration [OF step pothole(1)]
  from le r have le': "pos (snd (update_pothole (event_progress now self)
      (g1\<lparr>pos := Suc (pos g1)\<rparr>)
      ((\<lambda>s. s\<lparr>scenario_progress := event_progress now self\<rparr>) (tick now g1 self)))) \<le> n"
    by simp
  from phase_local [of n g1 g2 "update_pothole (event_progress now self)"
      "\<lambda>s. s\<lparr>scenario_progress := event_progress now self\<rparr>" now self,
      OF sd update_pothole_local leaf_pos(3) le'] r pothole(3)
  show ?thesis by (simp add: update_simulation_pothole [OF pothole(2) start dur] prod_eq_iff)
next
  case pothole_done
  note r = pairD [OF pothole_done(4)]
  from pothole_done(1) have start: "now \<ge> scenario_start self" by (simp add: in_event_def)
  note dur = update_simulation_duration [OF step pothole_done(1)]
  from le r have le': "pos (snd (schedule_next_event now_sched
      (snd (update_pothole (event_progress now self) (g1\<lparr>pos := Suc (pos g1)\<rparr>)
        ((\<lambda>s. s\<lparr>scenario_progress := event_progress now self\<rparr>) (tick now g1 self))))
      ((fst (update_pothole (event_progress now self) (g1\<lparr>pos := Suc (pos g1)\<rparr>)
        ((\<lambda>s. s\<lparr>scenario_progress := event_progress now self\<rparr>) (tick now g1 self))))
       \<lparr>scenario := Normal\<rparr>))) \<le> n"
    by simp
  from phase_then_schedule_local [of n g1 g2 "update_pothole (event_progress now self)"
      now_sched "\<lambda>s. s\<lparr>scenario_progress := event_progress now self\<rparr>" now self,
      OF sd update_pothole_local leaf_pos(3) le'] r pothole_done(3)
  show ?thesis
    by (simp add: update_simulation_pothole [OF pothole_done(2) start dur] prod_eq_iff)
qed

lemma update_simulation_pos:
  assumes "update_simulation now now_sched g self = Inr (s', g')"
  shows "pos g < pos g'"
  using assms
proof (cases rule: update_simulation_cases)
  case normal
  from pairD [OF normal(2)] leaf_pos(1) [of "g\<lparr>pos := Suc (pos g)\<rparr>" "tick now g self"]
  show ?thesis by simp
next
  case fall
  from pairD [OF fall(4)] leaf_pos(2) [of "g\<lparr>pos := Suc (pos g)\<rparr>" "event_progress now self"
      "(tick now g self)\<lparr>scenario_progress := event_progress now self\<rparr>"]
  show ?thesis by simp
next
  case fall_done
  from pairD [OF fall_done(4)]
    leaf_pos(2) [of "g\<lparr>pos := Suc (pos g)\<rparr>" "event_progress now self"
      "(tick now g self)\<lparr>scenario_progress := event_progress now self\<rparr>"]
  show ?thesis by (simp add: schedule_next_event_frame)
next
  case pothole
  from pairD [OF pothole(4)]
    leaf_pos(3) [of "g\<lparr>pos := Suc (pos g)\<rparr>" "event_progress now self"
      "(tick now g self)\<lparr>scenario_progress := event_progress now self\<rparr>"]
  show ?thesis by simp
next
  case pothole_done
  from pairD [OF pothole_done(4)]
    leaf_pos(3) [of "g\<lparr>pos := Suc (pos g)\<rparr>" "event_progress now self"
      "(tick now g self)\<lparr>scenario_progress := event_progress now self\<rparr>"]
  show ?thesis by (simp add: schedule_next_event_frame)
qed
lemma read_property_local:
  assumes sd: "same_draws n g1 g2"
    and step: "read_property a g1 self = Inr (v, s', g1')"
    and le: "pos g1' \<le> n"
  shows "\<exists>g2'. read_property a g2 self = Inr (v, s', g2') \<and> same_draws n g1' g2'"
proof (cases a)
  case (Acceleration now now_sched)
  from step obtain x y z where
    u: "update_simulation now now_sched g1 self = Inr (s', g1')"
    and v: "v = Vec (accel_x s') (accel_y s') (accel_z s')"
    unfolding Acceleration by (auto simp: acceleration_def split: sum.splits)
  from update_simulation_local [OF sd u le] obtain g2' where
    "update_simulation now now_sched g2 self = Inr (s', g2')" and "same_draws n g1' g2'"
    by blast
  then show ?thesis unfolding Acceleration by (auto simp: acceleration_def v)
next
  case Gyro
  with step sd show ?thesis by (auto simp: gyro_def)
next
  case Temperature
  with step sd show ?thesis by (auto simp: temperature_property_def)
qed

lemma read_property_pos:
  assumes "read_property a g self = Inr (v, s', g')"
  shows "pos g \<le> pos g'"
proof (cases a)
  case (Acceleration now now_sched)
  from assms have "update_simulation now now_sched g self = Inr (s', g')"
    unfolding Acceleration by (auto simp: acceleration_def split: sum.splits)
  from update_simulation_pos [OF this] show ?thesis by simp
next
  case Gyro
  with assms show ?thesis by (auto simp: gyro_def)
next
  case Temperature
  with assms show ?thesis by (auto simp: temperature_property_def)
qed

lemma run_reads_ConsD:
  assumes "run_reads (a # as) g self = Inr (vs, s', g')"
  obtains v vs' s1 g1 where "read_property a g self = Inr (v, s1, g1)"
    and "run_reads as g1 s1 = Inr (vs', s', g')" and "vs = v # vs'"
  using assms by (auto split: sum.splits)

lemma run_reads_pos:
  "run_reads as g self = Inr (vs, s', g') \<Longrightarrow> pos g \<le> pos g'"
proof (induction as arbitrary: g self vs)
  case Nil
  then show ?case by simp
next
  case (Cons a as)
  from Cons.prems obtain v vs' s1 g1 where
    first: "read_property a g self = Inr (v, s1, g1)"
    and rest: "run_reads as g1 s1 = Inr (vs', s', g')"
    by (rule run_reads_ConsD)
  from read_property_pos [OF first] Cons.IH [OF rest] show ?case by simp
qed

lemma run_reads_local:
  "same_draws n g1 g2 \<Longrightarrow> run_reads as g1 self = Inr (vs, s', g1') \<Longrightarrow> pos g1' \<le> n \<Longrightarrow>
   \<exists>g2'. run_reads as g2 self = Inr (vs, s', g2') \<and> same_draws n g1' g2'"
proof (induction as arbitrary: g1 g2 self vs)
  case Nil
  then show ?case by auto
next
  case (Cons a as)
  from Cons.prems(2) obtain v vs' s1 h1 where
    first: "read_property a g1 self = Inr (v, s1, h1)"
    and rest: "run_reads as h1 s1 = Inr (vs', s', g1')" and vs: "vs = v # vs'"
    by (rule run_reads_ConsD)
  from run_reads_pos [OF rest] Cons.prems(3) have "pos h1 \<le> n" by simp
  from read_property_local [OF Cons.prems(1) first this] obtain h2 where
    first2: "read_property a g2 self = Inr (v, s1, h2)" and sd: "same_draws n h1 h2"
    by blast
  from Cons.IH [OF sd rest Cons.prems(3)] obtain g2' where
    rest2: "run_reads as h2 s1 = Inr (vs', s', g2')" and sd': "same_draws n g1' g2'"
    by blast
  from first2 rest2 sd' vs show ?case by simp
qed
section \<open>Determinism in the draws and the clock readings\<close>

lemma get_sensor_data_local:
  assumes "same_draws n g1 g2" and "pos (snd (snd (get_sensor_data now g1 self))) \<le> n"
  shows "fst (snd (get_sensor_data now g2 self)) = fst (snd (get_sensor_data now g1 self))
     \<and> same_draws n (snd (snd (get_sensor_data now g1 self)))
          (snd (snd (get_sensor_data now g2 self)))"
  using assms
  by (cases "gas_status self = ENABLE_GAS_MEAS")
     (simp_all add: get_sensor_data_disabled get_sensor_data_enabled same_draws_def)

lemma run_bme_step:
  "run_bme (now # nows) g self =
     (data (fst (snd (get_sensor_data now g self))) #
        fst (run_bme nows (snd (snd (get_sensor_data now g self)))
               (fst (snd (get_sensor_data now g self)))),
      snd (run_bme nows (snd (snd (get_sensor_data now g self)))
             (fst (snd (get_sensor_data now g self)))))"
  by (simp add: split_def Let_def)

lemma run_bme_pos: "pos g \<le> pos (snd (snd (run_bme nows g self)))"
proof (induction nows arbitrary: g self)
  case Nil
  then show ?case by simp
next
  case (Cons now nows)
  have "pos g \<le> pos (snd (snd (get_sensor_data now g self)))"
    by (simp add: get_sensor_data_rng)
  also have "\<dots> \<le> pos (snd (snd (run_bme nows (snd (snd (get_sensor_data now g self)))
      (fst (snd (get_sensor_data now g self))))))"
    by (rule Cons.IH)
  finally show ?case unfolding run_bme_step by simp
qed

lemma run_bme_local:
  "same_draws n g1 g2 \<Longrightarrow> pos (snd (snd (run_bme nows g1 self))) \<le> n \<Longrightarrow>
   fst (run_bme nows g2 self) = fst (run_bme nows g1 self)
   \<and> fst (snd (run_bme nows g2 self)) = fst (snd (run_bme nows g1 self))
   \<and> same_draws n (snd (snd (run_bme nows g1 self))) (snd (snd (run_bme nows g2 self)))"
proof (induction nows arbitrary: g1 g2 self)
  case Nil
  then show ?case by simp
next
  case (Cons now nows)
  let ?s1 = "fst (snd (get_sensor_data now g1 self))"
  let ?h1 = "snd (snd (get_sensor_data now g1 self))"
  let ?h2 = "snd (snd (get_sensor_data now g2 self))"
  from Cons.prems(2) have le: "pos (snd (snd (run_bme nows ?h1 ?s1))) \<le> n"
    unfolding run_bme_step by simp
  with run_bme_pos [of ?h1 nows ?s1] have "pos ?h1 \<le> n" by simp
  from get_sensor_data_local [OF Cons.prems(1) this]
  have same: "fst (snd (get_sensor_data now g2 self)) = ?s1" and sd: "same_draws n ?h1 ?h2"
    by simp_all
  from Cons.IH [OF sd le] show ?case
    unfolding run_bme_step same by simp
qed

lemma aggregate_elapsed_only:
  assumes "now1 - last_update a1 = now2 - last_update a2"
    and "now1 - start_time a1 = now2 - start_time a2"
    and "total_energy a1 = total_energy a2" and "total_distance a1 = total_distance a2"
  shows "(fst (get_aggregated_telemetry now1 b cap m t a1))\<lparr>timestamp := 0\<rparr> =
       (fst (get_aggregated_telemetry now2 b cap m t a2))\<lparr>timestamp := 0\<rparr>
     \<and> total_energy (snd (get_aggregated_telemetry now1 b cap m t a1)) =
       total_energy (snd (get_aggregated_telemetry now2 b cap m t a2))
     \<and> total_distance (snd (get_aggregated_telemetry now1 b cap m t a1)) =
       total_distance (snd (get_aggregated_telemetry now2 b cap m t a2))"
  using assms by (simp add: get_aggregated_telemetry_def Let_def)

lemma run_bme_ex_pos: "pos (snd (snd (run_bme [40, 41] rng_bme bme0))) = 12"
  unfolding run_bme_step run_bme.simps snd_conv
  unfolding rng_bme1_def [symmetric] bme1_def [symmetric] get_sensor_data_rng
  by (simp add: bme1_fields rng_bme1_fields ENABLE_GAS_MEAS_def DISABLE_GAS_MEAS_def)

lemma same_draws_bme_alt:
  "same_draws 12 rng_bme rng_bme_alt" "draws rng_bme_alt 12 \<noteq> draws rng_bme 12"
  by (simp_all add: same_draws_def rng_bme_alt_def rng_bme_fields)
lemma rng_a1_pos: "pos rng_a1 = 10"
  unfolding rng_a1_def update_simulation_normal [OF not_in_event_a0]
  by (simp add: update_normal_riding_closed mpu_a0_fields rng_mpu_fields)

lemma same_draws_a0_alt:
  "same_draws 10 rng_a0 rng_a0_alt" "draws rng_a0_alt 10 \<noteq> draws rng_a0 10"
  by (simp_all add: same_draws_def rng_a0_alt_def mpu_a0_fields rng_mpu_fields)

lemma run_reads_ex:
  "run_reads [Acceleration 49 49, Gyro, Temperature] rng_a0 mpu_a0 =
     Inr ([Vec (accel_x mpu_a1) (1 / 4) (accel_z mpu_a1),
           Vec (gyro_x mpu_a1) (1 / 10) (1 / 20),
           Scalar (mpu_temperature mpu_a1)], mpu_a1, rng_a1)"
  by (simp add: acceleration_def step_a1 gyro_def temperature_property_def mpu_a1_motion)

text \<open>
  C8. With the draws and the clock readings as explicit inputs, the outputs are fixed by
  the draws actually made. Two generators that stand at the same position and agree
  on every draw below the position at which a run of the environmental simulator ends
  give the same samples and the same final simulator for the same clock readings; the
  same holds for every returning sequence of reads of the inertial simulator. The
  aggregator draws nothing: its snapshot apart from the time stamp, and its totals,
  are fixed by the provider states, the elapsed time, the uptime and the totals before
  the call.
\<close>

theorem same_draws_same_outputs:
  "(same_draws n g1 g2 \<and> pos (snd (snd (run_bme nows g1 bme))) \<le> n \<longrightarrow>
      fst (run_bme nows g2 bme) = fst (run_bme nows g1 bme)
      \<and> fst (snd (run_bme nows g2 bme)) = fst (snd (run_bme nows g1 bme)))
   \<and> (same_draws k h1 h2 \<and> run_reads as h1 mpu = Inr (vs, mpu', h1') \<and> pos h1' \<le> k \<longrightarrow>
        (\<exists>h2'. run_reads as h2 mpu = Inr (vs, mpu', h2') \<and> same_draws k h1' h2'))
   \<and> (now1 - last_update a1 = now2 - last_update a2
        \<and> now1 - start_time a1 = now2 - start_time a2
        \<and> total_energy a1 = total_energy a2 \<and> total_distance a1 = total_distance a2 \<longrightarrow>
        (fst (get_aggregated_telemetry now1 b cap m t a1))\<lparr>timestamp := 0\<rparr> =
          (fst (get_aggregated_telemetry now2 b cap m t a2))\<lparr>timestamp := 0\<rparr>
        \<and> total_energy (snd (get_aggregated_telemetry now1 b cap m t a1)) =
          total_energy (snd (get_aggregated_telemetry now2 b cap m t a2))
        \<and> total_distance (snd (get_aggregated_telemetry now1 b cap m t a1)) =
          total_distance (snd (get_aggregated_telemetry now2 b cap m t a2)))"
proof (intro conjI impI)
  assume h: "same_draws n g1 g2 \<and> pos (snd (snd (run_bme nows g1 bme))) \<le> n"
  then have sd: "same_draws n g1 g2" and le: "pos (snd (snd (run_bme nows g1 bme))) \<le> n"
    by simp_all
  from run_bme_local [OF sd le]
  show "fst (run_bme nows g2 bme) = fst (run_bme nows g1 bme)"
    and "fst (snd (run_bme nows g2 bme)) = fst (snd (run_bme nows g1 bme))"
    by simp_all
next
  assume "same_draws k h1 h2 \<and> run_reads as h1 mpu = Inr (vs, mpu', h1') \<and> pos h1' \<le> k"
  then show "\<exists>h2'. run_reads as h2 mpu = Inr (vs, mpu', h2') \<and> same_draws k h1' h2'"
    using run_reads_local [of k h1 h2 as mpu vs mpu' h1'] by blast
next
  assume h: "now1 - last_update a1 = now2 - last_update a2
        \<and> now1 - start_time a1 = now2 - start_time a2
        \<and> total_energy a1 = total_energy a2 \<and> total_distance a1 = total_distance a2"
  from aggregate_elapsed_only [of now1 a1 now2 a2 b cap m t] h
  show "(fst (get_aggregated_telemetry now1 b cap m t a1))\<lparr>timestamp := 0\<rparr> =
          (fst (get_aggregated_telemetry now2 b cap m t a2))\<lparr>timestamp := 0\<rparr>"
    and "total_energy (snd (get_aggregated_telemetry now1 b cap m t a1)) =
          total_energy (snd (get_aggregated_telemetry now2 b cap m t a2))"
    and "total_distance (snd (get_aggregated_telemetry now1 b cap m t a1)) =
          total_distance (snd (get_aggregated_telemetry now2 b cap m t a2))"
    by blast+
qed

theorem same_draws_same_outputs_witness:
  "same_draws 12 rng_bme rng_bme_alt
   \<and> draws rng_bme_alt 12 \<noteq> draws rng_bme 12
   \<and> pos (snd (snd (run_bme [40, 41] rng_bme bme0))) \<le> 12
   \<and> fst (run_bme [40, 41] rng_bme_alt bme0) = fst (run_bme [40, 41] rng_bme bme0)
   \<and> fst (snd (run_bme [40, 41] rng_bme_alt bme0)) = fst (snd (run_bme [40, 41] rng_bme bme0))
   \<and> same_draws 10 rng_a0 rng_a0_alt
   \<and> draws rng_a0_alt 10 \<noteq> draws rng_a0 10
   \<and> run_reads [Acceleration 49 49, Gyro, Temperature] rng_a0 mpu_a0 =
       Inr ([Vec (accel_x mpu_a1) (1 / 4) (accel_z mpu_a1),
             Vec (gyro_x mpu_a1) (1 / 10) (1 / 20),
             Scalar (mpu_temperature mpu_a1)], mpu_a1, rng_a1)
   \<and> pos rng_a1 \<le> 10
   \<and> (\<exists>h2'. run_reads [Acceleration 49 49, Gyro, Temperature] rng_a0_alt mpu_a0 =
         Inr ([Vec (accel_x mpu_a1) (1 / 4) (accel_z mpu_a1),
               Vec (gyro_x mpu_a1) (1 / 10) (1 / 20),
               Scalar (mpu_temperature mpu_a1)], mpu_a1, h2')
         \<and> same_draws 10 rng_a1 h2')
   \<and> total_energy (snd (get_aggregated_telemetry 3600 battery_ex 10 motor_ex temp_ex
         (aggregator_init 0 0))) =
     total_energy (snd (get_aggregated_telemetry 7200 battery_ex 10 motor_ex temp_ex
         (aggregator_init 3600 3600)))"
  using same_draws_same_outputs [where n = 12 and ?g1.0 = rng_bme and ?g2.0 = rng_bme_alt
      and nows = "[40, 41]" and bme = bme0
      and k = 10 and ?h1.0 = rng_a0 and ?h2.0 = rng_a0_alt
      and as = "[Acceleration 49 49, Gyro, Temperature]" and mpu = mpu_a0
      and vs = "[Vec (accel_x mpu_a1) (1 / 4) (accel_z mpu_a1),
                 Vec (gyro_x mpu_a1) (1 / 10) (1 / 20),
                 Scalar (mpu_temperature mpu_a1)]" and mpu' = mpu_a1 and h1' = rng_a1
      and ?now1.0 = 3600 and ?a1.0 = "aggregator_init 0 0"
      and ?now2.0 = 7200 and ?a2.0 = "aggregator_init 3600 3600"
      and b = battery_ex and cap = 10 and m = motor_ex and t = temp_ex]
    same_draws_bme_alt same_draws_a0_alt run_reads_ex
  by (simp only: run_bme_ex_pos rng_a1_pos order_refl simp_thms aggregator_init_def
      aggregator.simps diff_zero diff_numeral_special)

end
